theory Spec2Isabelle
  imports Main
begin

section \<open>Data model\<close>

text \<open>
  The AWS Athena MCP server: a tool surface (index.ts) over \<open>AthenaService\<close>
  (athena.ts), which talks to the Athena backend through an SDK client.

  JavaScript values are modelled as the code reads them: an optional field is an
  \<open>option\<close>, a \<open>number\<close> is an \<open>int\<close> (all numbers the code handles are
  millisecond counts, row counts and byte counts; fractions, NaN and infinities are
  outside the model), a string is a \<open>string\<close>.
\<close>

subsection \<open>types.ts\<close>

record QueryInput =
  database :: string
  query :: string
  maxRows :: "int option"
  timeoutMs :: "int option"

record Statistics =
  dataScannedInBytes :: int
  engineExecutionTimeInMillis :: int

record QueryStatus =
  state :: string
  stateChangeReason :: "string option"
  statistics :: "Statistics option"

text \<open>
  A row of a \<open>QueryResult\<close> is a \<open>Record<string, unknown>\<close>: a finite map from
  property names to cell values. A cell value is \<open>VarCharValue\<close>, a string or
  \<open>undefined\<close>; so \<open>r k = None\<close> says that the record has no property \<open>k\<close>,
  \<open>r k = Some None\<close> that the property is there and holds \<open>undefined\<close>.
\<close>

type_synonym js_record = "string \<rightharpoonup> string option"

record QueryResult =
  columns :: "string list"
  rows :: "js_record list"
  result_queryExecutionId :: string
  bytesScanned :: int
  executionTime :: int

record AthenaError =
  message :: string
  code :: string
  queryExecutionId :: "string option"

subsection \<open>The SDK's response shapes\<close>

record QueryExecutionStatus =
  State :: "string option"
  StateChangeReason :: "string option"

record QueryExecutionStatistics =
  DataScannedInBytes :: "int option"
  EngineExecutionTimeInMillis :: "int option"

record QueryExecution =
  Status :: "QueryExecutionStatus option"
  Statistics :: "QueryExecutionStatistics option"

record StartQueryExecutionCommandOutput =
  QueryExecutionId :: "string option"

record GetQueryExecutionCommandOutput =
  QueryExecution :: "QueryExecution option"

record ColumnInfo =
  Name :: "string option"

record Datum =
  VarCharValue :: "string option"

record Row =
  Data :: "Datum list option"

record ResultSetMetadata =
  ColumnInfo :: "ColumnInfo list option"

record ResultSet =
  Rows :: "Row list option"
  ResultSetMetadata :: "ResultSetMetadata option"

record GetQueryResultsCommandOutput =
  ResultSet :: "ResultSet option"

text \<open>The members of the SDK's enum \<open>QueryExecutionState\<close> are these strings.\<close>

definition QUEUED :: string where "QUEUED = ''QUEUED''"
definition RUNNING :: string where "RUNNING = ''RUNNING''"
definition SUCCEEDED :: string where "SUCCEEDED = ''SUCCEEDED''"
definition FAILED :: string where "FAILED = ''FAILED''"
definition CANCELLED :: string where "CANCELLED = ''CANCELLED''"

subsection \<open>Thrown values\<close>

text \<open>
  Everything the code can \<open>throw\<close> or catch:
  \<^item> \<open>InvalidRequestException m\<close>: an instance of the SDK's exception class, with its
    message;
  \<^item> \<open>JsError m c\<close>: any other error object (\<open>new Error(m)\<close> of this code, or
    whatever else the SDK or the network layer throws), with its message and its
    \<open>code\<close> property when it has one;
  \<^item> \<open>Thrown e\<close>: a plain object \<open>{message, code, queryExecutionId?}\<close> thrown by
    this code;
  \<^item> \<open>McpError c m\<close>: the protocol error of the tool surface, built from an error
    code and a message.
\<close>

datatype ErrorCode = InvalidParams | MethodNotFound

datatype thrown =
    InvalidRequestException string
  | JsError string "string option"
  | Thrown AthenaError
  | McpError ErrorCode string

text \<open>\<open>"code" in error\<close> with \<open>error.code\<close> read as a string.\<close>

fun code_in :: "thrown \<Rightarrow> bool" where
  "code_in (InvalidRequestException m) = False"
| "code_in (JsError m c) = (c \<noteq> None)"
| "code_in (Thrown e) = True"
| "code_in (McpError c m) = True"

fun code_of :: "thrown \<Rightarrow> string option" where
  "code_of (InvalidRequestException m) = None"
| "code_of (JsError m c) = c"
| "code_of (Thrown e) = Some (code e)"
| "code_of (McpError c m) = None"

subsection \<open>The world outside: backend, clock, trace of effects\<close>

text \<open>
  Every awaited effect of the service is recorded in a trace, in order: the three
  commands sent to the backend, and the \<open>setTimeout\<close> of the poll loop.
\<close>

datatype event =
    StartQueryExecution string string string
  | GetQueryExecution string
  | GetQueryResults string int
  | Sleep int

text \<open>
  The backend and the clock are arbitrary: what a command returns or throws, and what
  \<open>Date.now()\<close> reads, may depend on everything that happened before (the trace) and
  on the command's parameters.
\<close>

record world =
  send_StartQueryExecutionCommand ::
    "event list \<Rightarrow> string \<Rightarrow> string \<Rightarrow> string \<Rightarrow> thrown + StartQueryExecutionCommandOutput"
  send_GetQueryExecutionCommand ::
    "event list \<Rightarrow> string \<Rightarrow> thrown + GetQueryExecutionCommandOutput"
  send_GetQueryResultsCommand ::
    "event list \<Rightarrow> string \<Rightarrow> int \<Rightarrow> thrown + GetQueryResultsCommandOutput"
  Date_now :: "event list \<Rightarrow> int"

record AthenaService =
  outputLocation :: string

type_synonym 'a io = "(thrown + 'a) \<times> event list"

subsection \<open>JavaScript's truthiness\<close>

text \<open>\<open>x || d\<close> on an optional string and on an optional number.\<close>

fun str_or :: "string option \<Rightarrow> string \<Rightarrow> string" where
  "str_or None d = d"
| "str_or (Some s) d = (if s = [] then d else s)"

fun num_or :: "int option \<Rightarrow> int \<Rightarrow> int" where
  "num_or None d = d"
| "num_or (Some n) d = (if n = 0 then d else n)"

fun truthy_str :: "string option \<Rightarrow> bool" where
  "truthy_str None = False"
| "truthy_str (Some s) = (s \<noteq> [])"

section \<open>athena.ts: AthenaService\<close>

subsection \<open>waitForQueryCompletion\<close>

definition timeout_error :: "string \<Rightarrow> thrown" where
  "timeout_error qid =
     Thrown \<lparr>message = ''Query timed out'', code = ''TIMEOUT'',
             queryExecutionId = Some qid\<rparr>"

text \<open>
  \<open>timeoutMs && Date.now() - startTime >= timeoutMs\<close>: an absent or zero budget is
  falsy, and then the clock is not compared.
\<close>

fun budget_exhausted :: "int option \<Rightarrow> int \<Rightarrow> bool" where
  "budget_exhausted None elapsed = False"
| "budget_exhausted (Some t) elapsed = (t \<noteq> 0 \<and> elapsed \<ge> t)"

text \<open>\<open>response.QueryExecution?.Status?.State\<close> and the reason beside it.\<close>

definition response_state :: "GetQueryExecutionCommandOutput \<Rightarrow> string option" where
  "response_state response =
     Option.bind (Option.bind (QueryExecution response) Status) State"

definition response_reason :: "GetQueryExecutionCommandOutput \<Rightarrow> string option" where
  "response_reason response =
     Option.bind (Option.bind (QueryExecution response) Status) StateChangeReason"

definition query_failed_error :: "string \<Rightarrow> GetQueryExecutionCommandOutput \<Rightarrow> thrown" where
  "query_failed_error qid response =
     Thrown \<lparr>message = str_or (response_reason response) ''Query failed'',
             code = ''QUERY_FAILED'', queryExecutionId = Some qid\<rparr>"

text \<open>
  The \<open>while (attempts < maxAttempts)\<close> loop, from the state it has at the top of an
  iteration: the attempts made, and the trace so far.
\<close>

function waitForQueryCompletion_loop ::
  "world \<Rightarrow> string \<Rightarrow> int \<Rightarrow> int option \<Rightarrow> int \<Rightarrow> int \<Rightarrow> event list
     \<Rightarrow> GetQueryExecutionCommandOutput io" where
  "waitForQueryCompletion_loop w qid maxAttempts timeout startTime attempts tr =
     (if attempts < maxAttempts then
        if budget_exhausted timeout (Date_now w tr - startTime)
        then (Inl (timeout_error qid), tr)
        else
          (case send_GetQueryExecutionCommand w tr qid of
             Inl ex \<Rightarrow> (Inl ex, tr @ [GetQueryExecution qid])
           | Inr response \<Rightarrow>
               if response_state response = Some SUCCEEDED
               then (Inr response, tr @ [GetQueryExecution qid])
               else if response_state response = Some FAILED
                     \<or> response_state response = Some CANCELLED
               then (Inl (query_failed_error qid response), tr @ [GetQueryExecution qid])
               else waitForQueryCompletion_loop w qid maxAttempts timeout
                      startTime (attempts + 1)
                      (tr @ [GetQueryExecution qid, Sleep 1000]))
      else (Inl (timeout_error qid), tr))"
  by pat_completeness auto
termination
  by (relation "measure (\<lambda>(w, i, maxAttempts, t, s, attempts, tr). nat (maxAttempts - attempts))")
     auto

text \<open>The parameter \<open>maxAttempts = 100\<close> has a default; \<open>timeoutMs\<close> is optional.\<close>

definition waitForQueryCompletion ::
  "world \<Rightarrow> string \<Rightarrow> int option \<Rightarrow> int option \<Rightarrow> event list
     \<Rightarrow> GetQueryExecutionCommandOutput io" where
  "waitForQueryCompletion w qid maxAttempts timeout tr =
     waitForQueryCompletion_loop w qid
       (case maxAttempts of None \<Rightarrow> 100 | Some n \<Rightarrow> n) timeout (Date_now w tr) 0 tr"

subsection \<open>getQueryStatus\<close>

definition not_found_error :: thrown where
  "not_found_error =
     Thrown \<lparr>message = ''Query execution not found'', code = ''QUERY_NOT_FOUND'',
             queryExecutionId = None\<rparr>"

text \<open>The \<open>catch\<close> block shared by \<open>getQueryStatus\<close> and \<open>getQueryResults\<close>.\<close>

fun catch_not_found :: "thrown \<Rightarrow> thrown" where
  "catch_not_found (InvalidRequestException m) = not_found_error"
| "catch_not_found e = e"

definition getQueryStatus :: "world \<Rightarrow> string \<Rightarrow> event list \<Rightarrow> QueryStatus io" where
  "getQueryStatus w qid tr =
     (case send_GetQueryExecutionCommand w tr qid of
        Inl ex \<Rightarrow> (Inl (catch_not_found ex), tr @ [GetQueryExecution qid])
      | Inr response \<Rightarrow>
          (case QueryExecution response of
             None \<Rightarrow> (Inl (catch_not_found not_found_error),
                       tr @ [GetQueryExecution qid])
           | Some qe \<Rightarrow>
               (Inr \<lparr>state = str_or (Option.bind (Status qe) State) ''UNKNOWN'',
                     stateChangeReason = Option.bind (Status qe) StateChangeReason,
                     statistics = Some
                       \<lparr>dataScannedInBytes =
                          num_or (Option.bind (Statistics qe) DataScannedInBytes) 0,
                        engineExecutionTimeInMillis =
                          num_or (Option.bind (Statistics qe) EngineExecutionTimeInMillis) 0\<rparr>\<rparr>,
                tr @ [GetQueryExecution qid])))"

subsection \<open>getQueryResults\<close>

text \<open>
  \<open>obj[k] = v\<close> on an object created by \<open>{}\<close>. The key \<open>__proto__\<close> reaches the
  accessor of \<open>Object.prototype\<close>, which ignores a string and \<open>undefined\<close>: no
  property is created. Every other key becomes (or overwrites) an own property.
\<close>

definition js_assign :: "js_record \<Rightarrow> string \<Rightarrow> string option \<Rightarrow> js_record" where
  "js_assign obj k v = (if k = ''__proto__'' then obj else obj(k \<mapsto> v))"

text \<open>\<open>columns[index]\<close>: \<open>undefined\<close> beyond the end of the array.\<close>

definition column_at :: "string list \<Rightarrow> nat \<Rightarrow> string option" where
  "column_at cols index = (if index < length cols then Some (cols ! index) else None)"

text \<open>
  \<open>row.Data?.forEach((data, index) => { if (columns[index]) obj[columns[index]] =
  data.VarCharValue })\<close>, from the index it has reached.
\<close>

fun forEach_Data :: "string list \<Rightarrow> Datum list \<Rightarrow> nat \<Rightarrow> js_record \<Rightarrow> js_record" where
  "forEach_Data cols [] index obj = obj"
| "forEach_Data cols (data # rest) index obj =
     forEach_Data cols rest (index + 1)
       (if truthy_str (column_at cols index)
        then js_assign obj (cols ! index) (VarCharValue data)
        else obj)"

definition row_record :: "string list \<Rightarrow> Row \<Rightarrow> js_record" where
  "row_record cols row =
     (case Data row of None \<Rightarrow> Map.empty | Some ds \<Rightarrow> forEach_Data cols ds 0 Map.empty)"

text \<open>\<open>results.ResultSet.ResultSetMetadata?.ColumnInfo?.map((col) => col.Name || "") || []\<close>\<close>

definition result_columns :: "ResultSet \<Rightarrow> string list" where
  "result_columns rs =
     (case Option.bind (ResultSetMetadata rs) ColumnInfo of
        None \<Rightarrow> []
      | Some infos \<Rightarrow> map (\<lambda>col. str_or (Name col) []) infos)"

text \<open>\<open>(results.ResultSet.Rows || []).slice(1).map(...)\<close>\<close>

definition result_rows :: "ResultSet \<Rightarrow> js_record list" where
  "result_rows rs =
     map (row_record (result_columns rs))
       (drop 1 (case Rows rs of None \<Rightarrow> [] | Some rws \<Rightarrow> rws))"

definition getQueryResults :: "world \<Rightarrow> string \<Rightarrow> int option \<Rightarrow> event list \<Rightarrow> QueryResult io" where
  "getQueryResults w qid max_rows tr =
     (case getQueryStatus w qid tr of
        (Inl e, tr1) \<Rightarrow> (Inl (catch_not_found e), tr1)
      | (Inr status, tr1) \<Rightarrow>
          if state status = RUNNING \<or> state status = QUEUED
          then (Inl (catch_not_found
                  (Thrown \<lparr>message = ''Query is still running'',
                           code = ''QUERY_STILL_RUNNING'',
                           queryExecutionId = Some qid\<rparr>)), tr1)
          else if state status = FAILED
          then (Inl (catch_not_found
                  (Thrown \<lparr>message = str_or (stateChangeReason status) ''Query failed'',
                           code = ''QUERY_FAILED'',
                           queryExecutionId = Some qid\<rparr>)), tr1)
          else if state status \<noteq> SUCCEEDED
          then (Inl (catch_not_found
                  (Thrown \<lparr>message = ''Unexpected query state: '' @ state status,
                           code = ''UNEXPECTED_STATE'',
                           queryExecutionId = Some qid\<rparr>)), tr1)
          else
            (case send_GetQueryResultsCommand w tr1 qid (num_or max_rows 1000) of
               Inl ex \<Rightarrow>
                 (Inl (catch_not_found ex), tr1 @ [GetQueryResults qid (num_or max_rows 1000)])
             | Inr results \<Rightarrow>
                 (case ResultSet results of
                    None \<Rightarrow>
                      (Inl (catch_not_found (JsError ''No results returned from query'' None)),
                       tr1 @ [GetQueryResults qid (num_or max_rows 1000)])
                  | Some rs \<Rightarrow>
                      (Inr \<lparr>columns = result_columns rs,
                            rows = result_rows rs,
                            result_queryExecutionId = qid,
                            bytesScanned =
                              num_or (map_option dataScannedInBytes (statistics status)) 0,
                            executionTime =
                              num_or (map_option engineExecutionTimeInMillis (statistics status)) 0\<rparr>,
                       tr1 @ [GetQueryResults qid (num_or max_rows 1000)]))))"

subsection \<open>executeQuery\<close>

text \<open>The result type \<open>QueryResult | { queryExecutionId: string }\<close>.\<close>

datatype run_result = Full QueryResult | ExecutionIdOnly string

text \<open>The outer \<open>catch\<close> block of \<open>executeQuery\<close>.\<close>

fun catch_invalid_request :: "thrown \<Rightarrow> thrown" where
  "catch_invalid_request (InvalidRequestException m) =
     Thrown \<lparr>message = m, code = ''INVALID_REQUEST'', queryExecutionId = None\<rparr>"
| "catch_invalid_request e = e"

text \<open>
  The inner \<open>catch\<close> block: an error that has a \<open>code\<close> equal to \<open>"TIMEOUT"\<close>
  becomes the bare execution id; any other error is thrown again, into the outer block.
\<close>

definition catch_timeout :: "string \<Rightarrow> thrown \<Rightarrow> thrown + run_result" where
  "catch_timeout qid error =
     (if code_in error \<and> code_of error = Some ''TIMEOUT''
      then Inr (ExecutionIdOnly qid)
      else Inl (catch_invalid_request error))"

definition executeQuery :: "world \<Rightarrow> AthenaService \<Rightarrow> QueryInput \<Rightarrow> event list \<Rightarrow> run_result io" where
  "executeQuery w this input tr =
     (let tr1 = tr @ [StartQueryExecution (query input) (database input) (outputLocation this)]
      in case send_StartQueryExecutionCommand w tr
                (query input) (database input) (outputLocation this) of
           Inl ex \<Rightarrow> (Inl (catch_invalid_request ex), tr1)
         | Inr startResponse \<Rightarrow>
             (case QueryExecutionId startResponse of
                None \<Rightarrow>
                  (Inl (catch_invalid_request (JsError ''Failed to start query execution'' None)),
                   tr1)
              | Some qid \<Rightarrow>
                  if qid = []
                  then (Inl (catch_invalid_request
                               (JsError ''Failed to start query execution'' None)), tr1)
                  else
                    (case waitForQueryCompletion w qid (Some 100)
                            (Some (num_or (timeoutMs input) 60000)) tr1 of
                       (Inl error, tr2) \<Rightarrow> (catch_timeout qid error, tr2)
                     | (Inr queryExecution, tr2) \<Rightarrow>
                         (case getQueryResults w qid (maxRows input) tr2 of
                            (Inl error, tr3) \<Rightarrow> (catch_timeout qid error, tr3)
                          | (Inr result, tr3) \<Rightarrow> (Inr (Full result), tr3)))))"

section \<open>index.ts: the tool surface\<close>

text \<open>
  The arguments of a tool call are a JSON object, or absent. Of a JSON value the handler
  asks only for its \<open>typeof\<close> and, for strings and numbers, its value.
\<close>

datatype jsval = JUndefined | JNull | JBoolean bool | JNumber int | JString string | JObject

record CallToolRequest =
  name :: string
  arguments :: "(string \<rightharpoonup> jsval) option"

text \<open>
  The tool list declares, in the \<open>inputSchema\<close> of \<open>run_query\<close> and of
  \<open>get_result\<close>, the property \<open>maxRows\<close> with \<open>minimum: 1\<close> and
  \<open>maximum: 10000\<close>. The schema is sent to the client; the handler below does not
  consult it.
\<close>

definition maxRows_minimum :: int where "maxRows_minimum = 1"
definition maxRows_maximum :: int where "maxRows_maximum = 10000"

text \<open>\<open>request.params.arguments.k\<close>: \<open>undefined\<close> when the object has no such key.\<close>

definition arg :: "(string \<rightharpoonup> jsval) \<Rightarrow> string \<Rightarrow> jsval" where
  "arg args k = (case args k of None \<Rightarrow> JUndefined | Some v \<Rightarrow> v)"

text \<open>\<open>typeof v === 'string'\<close> and \<open>typeof v === 'number' ? v : undefined\<close>.\<close>

fun as_string :: "jsval \<Rightarrow> string option" where
  "as_string (JString s) = Some s"
| "as_string v = None"

fun as_number :: "jsval \<Rightarrow> int option" where
  "as_number (JNumber n) = Some n"
| "as_number v = None"

text \<open>
  A tool response is \<open>{content: [{type: "text", text}]}\<close>, with \<open>isError: true\<close> in
  the error case. The text of a success is \<open>JSON.stringify(result, null, 2)\<close>, kept
  here as the value it serialises. The text of an error response is
  \<open>`Error: ${error.message}`\<close>, kept here as the error object whose message it shows
  (the message of a \<open>McpError\<close> is composed by the protocol library).
\<close>

datatype payload = RunResult run_result | ResultOf QueryResult | StatusOf QueryStatus

datatype tool_response = Content payload | ErrorContent thrown

text \<open>
  The handler's \<open>catch\<close> block: an error object with a \<open>code\<close> and a \<open>message\<close>
  becomes an error response showing the message; anything else is thrown on. (Every
  value of \<open>thrown\<close> has a message.)
\<close>

definition handler_catch :: "thrown \<Rightarrow> thrown + tool_response" where
  "handler_catch error = (if code_in error then Inr (ErrorContent error) else Inl error)"

definition run_query_invalid_params :: thrown where
  "run_query_invalid_params =
     McpError InvalidParams
       ''Missing or invalid required parameters: database (string) and query (string)''"

definition queryExecutionId_invalid_params :: thrown where
  "queryExecutionId_invalid_params =
     McpError InvalidParams
       ''Missing or invalid required parameter: queryExecutionId (string)''"

text \<open>
  \<open>!request.params.arguments?.queryExecutionId || typeof
  request.params.arguments.queryExecutionId !== 'string'\<close> is false exactly for a
  non-empty string.
\<close>

definition valid_queryExecutionId :: "(string \<rightharpoonup> jsval) \<Rightarrow> string option" where
  "valid_queryExecutionId args =
     (case as_string (arg args ''queryExecutionId'') of
        None \<Rightarrow> None
      | Some s \<Rightarrow> if s = [] then None else Some s)"

definition run_query :: "world \<Rightarrow> AthenaService \<Rightarrow> (string \<rightharpoonup> jsval) option \<Rightarrow> event list
    \<Rightarrow> tool_response io" where
  "run_query w athenaService arguments_opt tr =
     (case arguments_opt of
        None \<Rightarrow> (handler_catch run_query_invalid_params, tr)
      | Some args \<Rightarrow>
          (case (as_string (arg args ''database''), as_string (arg args ''query'')) of
             (Some d, Some q) \<Rightarrow>
               (case executeQuery w athenaService
                       \<lparr>database = d, query = q,
                        maxRows = as_number (arg args ''maxRows''),
                        timeoutMs = as_number (arg args ''timeoutMs'')\<rparr> tr of
                  (Inl error, tr') \<Rightarrow> (handler_catch error, tr')
                | (Inr result, tr') \<Rightarrow> (Inr (Content (RunResult result)), tr'))
           | _ \<Rightarrow> (handler_catch run_query_invalid_params, tr)))"

definition get_result :: "world \<Rightarrow> (string \<rightharpoonup> jsval) option \<Rightarrow> event list \<Rightarrow> tool_response io" where
  "get_result w arguments_opt tr =
     (case arguments_opt of
        None \<Rightarrow> (handler_catch queryExecutionId_invalid_params, tr)
      | Some args \<Rightarrow>
          (case valid_queryExecutionId args of
             None \<Rightarrow> (handler_catch queryExecutionId_invalid_params, tr)
           | Some qid \<Rightarrow>
               (case getQueryResults w qid (as_number (arg args ''maxRows'')) tr of
                  (Inl error, tr') \<Rightarrow> (handler_catch error, tr')
                | (Inr result, tr') \<Rightarrow> (Inr (Content (ResultOf result)), tr'))))"

definition get_status :: "world \<Rightarrow> (string \<rightharpoonup> jsval) option \<Rightarrow> event list \<Rightarrow> tool_response io" where
  "get_status w arguments_opt tr =
     (case arguments_opt of
        None \<Rightarrow> (handler_catch queryExecutionId_invalid_params, tr)
      | Some args \<Rightarrow>
          (case valid_queryExecutionId args of
             None \<Rightarrow> (handler_catch queryExecutionId_invalid_params, tr)
           | Some qid \<Rightarrow>
               (case getQueryStatus w qid tr of
                  (Inl error, tr') \<Rightarrow> (handler_catch error, tr')
                | (Inr status, tr') \<Rightarrow> (Inr (Content (StatusOf status)), tr'))))"

text \<open>The handler of \<open>CallToolRequestSchema\<close>: the \<open>switch\<close> on the tool's name.\<close>

definition call_tool :: "world \<Rightarrow> AthenaService \<Rightarrow> CallToolRequest \<Rightarrow> event list
    \<Rightarrow> tool_response io" where
  "call_tool w athenaService request tr =
     (if name request = ''run_query'' then run_query w athenaService (arguments request) tr
      else if name request = ''get_result'' then get_result w (arguments request) tr
      else if name request = ''get_status'' then get_status w (arguments request) tr
      else (handler_catch (McpError MethodNotFound (''Unknown tool: '' @ name request)), tr))"

section \<open>Notions used to state the properties\<close>

text \<open>
  A reply of the backend to a status request on which the poll loop goes on: it is not
  an exception, and its state is none of the three terminal ones.
\<close>

fun keeps_polling :: "thrown + GetQueryExecutionCommandOutput \<Rightarrow> bool" where
  "keeps_polling (Inl ex) = False"
| "keeps_polling (Inr response) =
     (response_state response \<noteq> Some SUCCEEDED \<and> response_state response \<noteq> Some FAILED
      \<and> response_state response \<noteq> Some CANCELLED)"

subsection \<open>A scripted backend for concrete runs\<close>

text \<open>
  A deterministic backend: it accepts every submission under the handle \<open>q-1\<close>, answers
  the \<open>n\<close>-th status request with the state and reason \<open>script n\<close>, and serves one
  fixed result page. Its clock advances by 20 ms for a command and by the delay for a
  \<open>setTimeout\<close>.
\<close>

fun duration :: "event \<Rightarrow> int" where
  "duration (Sleep ms) = ms"
| "duration e = 20"

definition status_reply :: "string option \<times> string option \<Rightarrow> GetQueryExecutionCommandOutput" where
  "status_reply sr =
     \<lparr>QueryExecution = Some
        \<lparr>Status = Some \<lparr>State = fst sr, StateChangeReason = snd sr\<rparr>,
         Statistics = Some \<lparr>DataScannedInBytes = Some 2048,
                            EngineExecutionTimeInMillis = Some 35\<rparr>\<rparr>\<rparr>"

fun is_status_request :: "event \<Rightarrow> bool" where
  "is_status_request (GetQueryExecution i) = True"
| "is_status_request e = False"

definition scripted :: "(nat \<Rightarrow> string option \<times> string option) \<Rightarrow> ResultSet option \<Rightarrow> world" where
  "scripted script page =
     \<lparr>send_StartQueryExecutionCommand = (\<lambda>h q d loc. Inr \<lparr>QueryExecutionId = Some ''q-1''\<rparr>),
      send_GetQueryExecutionCommand =
        (\<lambda>h i. Inr (status_reply (script (length (filter is_status_request h))))),
      send_GetQueryResultsCommand = (\<lambda>h i n. Inr \<lparr>ResultSet = page\<rparr>),
      Date_now = (\<lambda>h. sum_list (map duration h))\<rparr>"

definition service :: AthenaService where
  "service = \<lparr>outputLocation = ''s3://bucket/out/''\<rparr>"

text \<open>The state stays \<open>RUNNING\<close>; the state is \<open>SUCCEEDED\<close> from the first request on.\<close>

definition always_running :: "nat \<Rightarrow> string option \<times> string option" where
  "always_running n = (Some RUNNING, None)"

definition succeeded_at_once :: "nat \<Rightarrow> string option \<times> string option" where
  "succeeded_at_once n = (Some SUCCEEDED, None)"

text \<open>
  The result page of the decoder's example: the header row, then the rows
  \<open>["1","x"]\<close> and \<open>["2",null]\<close> under the columns \<open>col_a\<close> and \<open>col_b\<close>.
\<close>

definition cell :: "string \<Rightarrow> Datum" where
  "cell s = \<lparr>VarCharValue = Some s\<rparr>"

definition null_cell :: Datum where
  "null_cell = \<lparr>VarCharValue = None\<rparr>"

definition example_page :: ResultSet where
  "example_page =
     \<lparr>Rows = Some
        [\<lparr>Data = Some [cell ''col_a'', cell ''col_b'']\<rparr>,
         \<lparr>Data = Some [cell ''1'', cell ''x'']\<rparr>,
         \<lparr>Data = Some [cell ''2'', null_cell]\<rparr>],
      ResultSetMetadata = Some
        \<lparr>ColumnInfo = Some [\<lparr>Name = Some ''col_a''\<rparr>, \<lparr>Name = Some ''col_b''\<rparr>]\<rparr>\<rparr>"

text \<open>A result page whose second column has no name.\<close>

definition unnamed_column_page :: ResultSet where
  "unnamed_column_page =
     \<lparr>Rows = Some
        [\<lparr>Data = Some [cell ''a'', null_cell]\<rparr>,
         \<lparr>Data = Some [cell ''1'', cell ''2'']\<rparr>],
      ResultSetMetadata = Some
        \<lparr>ColumnInfo = Some [\<lparr>Name = Some ''a''\<rparr>, \<lparr>Name = None\<rparr>]\<rparr>\<rparr>"

text \<open>The state is \<open>FAILED\<close> with a reason; no state at first, then \<open>SUCCEEDED\<close>.\<close>

definition failed_with_reason :: "nat \<Rightarrow> string option \<times> string option" where
  "failed_with_reason n = (Some FAILED, Some ''syntax error'')"

definition unknown_then_succeeded :: "nat \<Rightarrow> string option \<times> string option" where
  "unknown_then_succeeded n = (if n = 0 then (None, None) else (Some SUCCEEDED, None))"

text \<open>Arguments of a \<open>run_query\<close> call with a budget of two seconds.\<close>

definition timeout_args :: "string \<rightharpoonup> jsval" where
  "timeout_args =
     [''database'' \<mapsto> JString ''db'', ''query'' \<mapsto> JString ''SELECT 1'',
      ''timeoutMs'' \<mapsto> JNumber 2000]"


definition rejecting :: "thrown \<Rightarrow> world" where
  "rejecting ex =
     (scripted always_running None)\<lparr>send_GetQueryExecutionCommand := (\<lambda>h i. Inl ex)\<rparr>"

definition no_execution :: world where
  "no_execution =
     (scripted always_running None)
       \<lparr>send_GetQueryExecutionCommand := (\<lambda>h i. Inr \<lparr>QueryExecution = None\<rparr>)\<rparr>"

text \<open>The status that \<open>getQueryStatus\<close> builds from a scripted reply.\<close>

definition observed :: "string \<Rightarrow> string option \<Rightarrow> QueryStatus" where
  "observed s reason =
     \<lparr>state = s, stateChangeReason = reason,
      statistics = Some \<lparr>dataScannedInBytes = 2048, engineExecutionTimeInMillis = 35\<rparr>\<rparr>"

text \<open>
  Arguments of tool calls: a page size of 10001 for \<open>run_query\<close> and for
  \<open>get_result\<close>; empty strings as database and query; a query that is a number.
\<close>

definition oversized_run_args :: "string \<rightharpoonup> jsval" where
  "oversized_run_args =
     [''database'' \<mapsto> JString ''db'', ''query'' \<mapsto> JString ''SELECT 1'',
      ''maxRows'' \<mapsto> JNumber 10001]"

definition oversized_result_args :: "string \<rightharpoonup> jsval" where
  "oversized_result_args =
     [''queryExecutionId'' \<mapsto> JString ''q-1'', ''maxRows'' \<mapsto> JNumber 10001]"

definition empty_string_args :: "string \<rightharpoonup> jsval" where
  "empty_string_args = [''database'' \<mapsto> JString [], ''query'' \<mapsto> JString []]"

definition no_query_args :: "string \<rightharpoonup> jsval" where
  "no_query_args = [''database'' \<mapsto> JString ''db'', ''query'' \<mapsto> JNumber 7]"

text \<open>A backend that rejects every submission, as Athena does for an empty query.\<close>

definition rejecting_submission :: world where
  "rejecting_submission =
     (scripted always_running None)
       \<lparr>send_StartQueryExecutionCommand :=
          (\<lambda>h q d loc. Inl (InvalidRequestException ''Query string is empty''))\<rparr>"

text \<open>The state is \<open>RUNNING\<close> for the first five status requests, then \<open>SUCCEEDED\<close>.\<close>

definition late :: "nat \<Rightarrow> string option \<times> string option" where
  "late n = (if n < 5 then (Some RUNNING, None) else (Some SUCCEEDED, None))"

section \<open>The poll loop\<close>

declare waitForQueryCompletion_loop.simps [simp del]

lemma loop_trace:
  "\<exists>added. snd (waitForQueryCompletion_loop w qid maxAttempts timeout startTime attempts tr) = tr @ added
      \<and> int (count_list added (GetQueryExecution qid)) \<le> max 0 (maxAttempts - attempts)
      \<and> set added \<subseteq> {GetQueryExecution qid, Sleep 1000}"
proof (induction w qid maxAttempts timeout startTime attempts tr rule: waitForQueryCompletion_loop.induct)
  case (1 w qid maxAttempts timeout startTime attempts tr)
  let ?L = "waitForQueryCompletion_loop w qid maxAttempts timeout startTime attempts tr"
  let ?P = "\<lambda>added. snd ?L = tr @ added
      \<and> int (count_list added (GetQueryExecution qid)) \<le> max 0 (maxAttempts - attempts)
      \<and> set added \<subseteq> {GetQueryExecution qid, Sleep 1000}"
  show ?case
  proof (cases "attempts < maxAttempts \<and> \<not> budget_exhausted timeout (Date_now w tr - startTime)")
    case False
    then have "snd ?L = tr"
      by (subst waitForQueryCompletion_loop.simps) auto
    then have "?P []" by simp
    then show ?thesis by blast
  next
    case True
    show ?thesis
    proof (cases "send_GetQueryExecutionCommand w tr qid")
      case (Inl ex)
      with True have "snd ?L = tr @ [GetQueryExecution qid]"
        by (subst waitForQueryCompletion_loop.simps) simp
      with True have "?P [GetQueryExecution qid]" by simp
      then show ?thesis by blast
    next
      case (Inr response)
      show ?thesis
      proof (cases "response_state response = Some SUCCEEDED \<or> response_state response = Some FAILED
                     \<or> response_state response = Some CANCELLED")
        case terminal: True
        with True Inr have "snd ?L = tr @ [GetQueryExecution qid]"
          by (subst waitForQueryCompletion_loop.simps) auto
        with True have "?P [GetQueryExecution qid]" by simp
        then show ?thesis by blast
      next
        case continue: False
        with True Inr have step: "?L = waitForQueryCompletion_loop w qid maxAttempts timeout startTime
               (attempts + 1) (tr @ [GetQueryExecution qid, Sleep 1000])"
          by (subst waitForQueryCompletion_loop.simps) simp
        from "1.IH" [of response] True Inr continue
        obtain added where
          a: "snd (waitForQueryCompletion_loop w qid maxAttempts timeout startTime
               (attempts + 1) (tr @ [GetQueryExecution qid, Sleep 1000]))
               = (tr @ [GetQueryExecution qid, Sleep 1000]) @ added"
          and b: "int (count_list added (GetQueryExecution qid)) \<le> max 0 (maxAttempts - (attempts + 1))"
          and c: "set added \<subseteq> {GetQueryExecution qid, Sleep 1000}"
          by auto
        from a b c True step have "?P ([GetQueryExecution qid, Sleep 1000] @ added)"
          by auto
        then show ?thesis by blast
      qed
    qed
  qed
qed


lemma loop_never_terminal:
  assumes "\<forall>h. keeps_polling (send_GetQueryExecutionCommand w h qid)"
  shows "fst (waitForQueryCompletion_loop w qid maxAttempts timeout startTime attempts tr)
           = Inl (timeout_error qid)"
  using assms
proof (induction w qid maxAttempts timeout startTime attempts tr rule: waitForQueryCompletion_loop.induct)
  case (1 w qid maxAttempts timeout startTime attempts tr)
  let ?L = "waitForQueryCompletion_loop w qid maxAttempts timeout startTime attempts tr"
  show ?case
  proof (cases "attempts < maxAttempts \<and> \<not> budget_exhausted timeout (Date_now w tr - startTime)")
    case False
    then show ?thesis
      by (subst waitForQueryCompletion_loop.simps) auto
  next
    case True
    from "1.prems" have kp: "keeps_polling (send_GetQueryExecutionCommand w tr qid)" by blast
    then obtain response where r: "send_GetQueryExecutionCommand w tr qid = Inr response"
      by (cases "send_GetQueryExecutionCommand w tr qid") auto
    with kp have nt: "response_state response \<noteq> Some SUCCEEDED"
      "\<not> (response_state response = Some FAILED \<or> response_state response = Some CANCELLED)"
      by auto
    with True r have "?L = waitForQueryCompletion_loop w qid maxAttempts timeout startTime
               (attempts + 1) (tr @ [GetQueryExecution qid, Sleep 1000])"
      by (subst waitForQueryCompletion_loop.simps) simp
    moreover from "1.IH" [of response] True r nt "1.prems"
    have "fst (waitForQueryCompletion_loop w qid maxAttempts timeout startTime
               (attempts + 1) (tr @ [GetQueryExecution qid, Sleep 1000])) = Inl (timeout_error qid)"
      by simp
    ultimately show ?thesis by simp
  qed
qed

lemma loop_verdicts:
  "(case fst (waitForQueryCompletion_loop w qid maxAttempts timeout startTime attempts tr) of
      Inr response \<Rightarrow>
        response_state response = Some SUCCEEDED
        \<and> (\<exists>h. send_GetQueryExecutionCommand w h qid = Inr response)
    | Inl e \<Rightarrow>
        e = timeout_error qid
        \<or> (\<exists>h. send_GetQueryExecutionCommand w h qid = Inl e)
        \<or> (\<exists>h response. send_GetQueryExecutionCommand w h qid = Inr response
              \<and> (response_state response = Some FAILED \<or> response_state response = Some CANCELLED)
              \<and> e = query_failed_error qid response))"
proof (induction w qid maxAttempts timeout startTime attempts tr rule: waitForQueryCompletion_loop.induct)
  case (1 w qid maxAttempts timeout startTime attempts tr)
  let ?L = "waitForQueryCompletion_loop w qid maxAttempts timeout startTime attempts tr"
  show ?case
  proof (cases "attempts < maxAttempts \<and> \<not> budget_exhausted timeout (Date_now w tr - startTime)")
    case False
    then have "fst ?L = Inl (timeout_error qid)"
      by (subst waitForQueryCompletion_loop.simps) auto
    then show ?thesis by simp
  next
    case True
    show ?thesis
    proof (cases "send_GetQueryExecutionCommand w tr qid")
      case (Inl ex)
      with True have "fst ?L = Inl ex"
        by (subst waitForQueryCompletion_loop.simps) simp
      with Inl show ?thesis by auto
    next
      case (Inr response)
      consider (ok) "response_state response = Some SUCCEEDED"
        | (bad) "response_state response \<noteq> Some SUCCEEDED"
            "response_state response = Some FAILED \<or> response_state response = Some CANCELLED"
        | (go) "response_state response \<noteq> Some SUCCEEDED"
            "\<not> (response_state response = Some FAILED \<or> response_state response = Some CANCELLED)"
        by blast
      then show ?thesis
      proof cases
        case ok
        with True Inr have "fst ?L = Inr response"
          by (subst waitForQueryCompletion_loop.simps) simp
        with ok Inr show ?thesis by auto
      next
        case bad
        with True Inr have "fst ?L = Inl (query_failed_error qid response)"
          by (subst waitForQueryCompletion_loop.simps) (simp add: query_failed_error_def)
        with bad Inr show ?thesis by auto
      next
        case go
        with True Inr have "?L = waitForQueryCompletion_loop w qid maxAttempts timeout startTime
               (attempts + 1) (tr @ [GetQueryExecution qid, Sleep 1000])"
          by (subst waitForQueryCompletion_loop.simps) simp
        with "1.IH" [of response] True Inr go show ?thesis by simp
      qed
    qed
  qed
qed

text \<open>Every status request of the loop is sent at a time when the budget is not exhausted.\<close>

lemma loop_requests_within_budget:
  assumes "snd (waitForQueryCompletion_loop w qid maxAttempts timeout startTime attempts tr)
             = tr @ p @ GetQueryExecution qid # rest"
  shows "\<not> budget_exhausted timeout (Date_now w (tr @ p) - startTime)"
  using assms
proof (induction w qid maxAttempts timeout startTime attempts tr arbitrary: p
        rule: waitForQueryCompletion_loop.induct)
  case (1 w qid maxAttempts timeout startTime attempts tr)
  let ?L = "waitForQueryCompletion_loop w qid maxAttempts timeout startTime attempts tr"
  show ?case
  proof (cases "attempts < maxAttempts \<and> \<not> budget_exhausted timeout (Date_now w tr - startTime)")
    case False
    then have "snd ?L = tr"
      by (subst waitForQueryCompletion_loop.simps) auto
    with "1.prems" show ?thesis by simp
  next
    case True
    have single: ?thesis if "snd ?L = tr @ [GetQueryExecution qid]"
    proof -
      from that "1.prems" have "p @ GetQueryExecution qid # rest = [GetQueryExecution qid]" by simp
      then have "p = []" by (cases p) simp_all
      with True show ?thesis by simp
    qed
    show ?thesis
    proof (cases "send_GetQueryExecutionCommand w tr qid")
      case (Inl ex)
      with True have "snd ?L = tr @ [GetQueryExecution qid]"
        by (subst waitForQueryCompletion_loop.simps) simp
      then show ?thesis by (rule single)
    next
      case (Inr response)
      show ?thesis
      proof (cases "response_state response = Some SUCCEEDED \<or> response_state response = Some FAILED
                     \<or> response_state response = Some CANCELLED")
        case terminal: True
        with True Inr have "snd ?L = tr @ [GetQueryExecution qid]"
          by (subst waitForQueryCompletion_loop.simps) auto
        then show ?thesis by (rule single)
      next
        case continue: False
        let ?tr2 = "tr @ [GetQueryExecution qid, Sleep 1000]"
        from True Inr continue have step: "?L = waitForQueryCompletion_loop w qid maxAttempts timeout
               startTime (attempts + 1) ?tr2"
          by (subst waitForQueryCompletion_loop.simps) simp
        from loop_trace [where w = w and qid = qid and maxAttempts = maxAttempts and timeout = timeout
               and startTime = startTime and attempts = "attempts + 1" and tr = ?tr2]
        obtain added where added: "snd (waitForQueryCompletion_loop w qid maxAttempts timeout
               startTime (attempts + 1) ?tr2) = ?tr2 @ added"
          by blast
        with step "1.prems" have eq: "p @ GetQueryExecution qid # rest
               = GetQueryExecution qid # Sleep 1000 # added"
          by simp
        show ?thesis
        proof (cases p)
          case Nil
          with True show ?thesis by simp
        next
          case (Cons e p')
          with eq have e: "e = GetQueryExecution qid"
            and eq': "p' @ GetQueryExecution qid # rest = Sleep 1000 # added"
            by simp_all
          from eq' obtain p'' where p': "p' = Sleep 1000 # p''"
            by (cases p') simp_all
          with Cons e have p: "p = [GetQueryExecution qid, Sleep 1000] @ p''" by simp
          with step "1.prems" have "snd (waitForQueryCompletion_loop w qid maxAttempts timeout
               startTime (attempts + 1) ?tr2) = ?tr2 @ p'' @ GetQueryExecution qid # rest"
            by simp
          from "1.IH" [OF _ _ Inr _ _ this] True continue p show ?thesis
            by simp
        qed
      qed
    qed
  qed
qed

text \<open>
  A run in which every status request got a reply that keeps the loop polling: it is a
  number of rounds of request and wait, it ends with the timeout, and it ends because
  the attempts are used up or because the budget is exhausted at the top of the next
  iteration.
\<close>

lemma count_rounds:
  "count_list (concat (replicate n [GetQueryExecution qid, Sleep 1000])) (GetQueryExecution qid) = n"
  by (induction n) simp_all

lemma loop_timeout_run:
  assumes "snd (waitForQueryCompletion_loop w qid maxAttempts timeout startTime attempts tr)
             = tr @ added"
    and "\<forall>p rest. added = p @ GetQueryExecution qid # rest
           \<longrightarrow> keeps_polling (send_GetQueryExecutionCommand w (tr @ p) qid)"
  shows "fst (waitForQueryCompletion_loop w qid maxAttempts timeout startTime attempts tr)
           = Inl (timeout_error qid)
       \<and> (\<exists>n. added = concat (replicate n [GetQueryExecution qid, Sleep 1000])
              \<and> (maxAttempts \<le> attempts + int n
                  \<or> budget_exhausted timeout (Date_now w (tr @ added) - startTime)))"
  using assms
proof (induction w qid maxAttempts timeout startTime attempts tr arbitrary: added
        rule: waitForQueryCompletion_loop.induct)
  case (1 w qid maxAttempts timeout startTime attempts tr)
  let ?L = "waitForQueryCompletion_loop w qid maxAttempts timeout startTime attempts tr"
  let ?G = "GetQueryExecution qid"
  show ?case
  proof (cases "attempts < maxAttempts \<and> \<not> budget_exhausted timeout (Date_now w tr - startTime)")
    case False
    then have L: "?L = (Inl (timeout_error qid), tr)"
      by (subst waitForQueryCompletion_loop.simps) auto
    with "1.prems"(1) have "added = []" by simp
    moreover have "[] = concat (replicate 0 [?G, Sleep 1000])" by simp
    ultimately show ?thesis using L False
      by (intro conjI exI [of _ 0]) auto
  next
    case True
    have first: "\<exists>rest. added = ?G # rest"
    proof (cases "send_GetQueryExecutionCommand w tr qid")
      case (Inl ex)
      with True have "snd ?L = tr @ [?G]"
        by (subst waitForQueryCompletion_loop.simps) simp
      with "1.prems"(1) show ?thesis by auto
    next
      case (Inr response)
      show ?thesis
      proof (cases "response_state response = Some SUCCEEDED \<or> response_state response = Some FAILED
                     \<or> response_state response = Some CANCELLED")
        case terminal: True
        with True Inr have "snd ?L = tr @ [?G]"
          by (subst waitForQueryCompletion_loop.simps) auto
        with "1.prems"(1) show ?thesis by auto
      next
        case continue: False
        with True Inr have "?L = waitForQueryCompletion_loop w qid maxAttempts timeout
               startTime (attempts + 1) (tr @ [?G, Sleep 1000])"
          by (subst waitForQueryCompletion_loop.simps) simp
        with loop_trace [where w = w and qid = qid and maxAttempts = maxAttempts
               and timeout = timeout and startTime = startTime and attempts = "attempts + 1"
               and tr = "tr @ [?G, Sleep 1000]"] "1.prems"(1)
        show ?thesis by auto
      qed
    qed
    then obtain rest where "added = [] @ ?G # rest" by auto
    with "1.prems"(2) have kp: "keeps_polling (send_GetQueryExecutionCommand w (tr @ []) qid)"
      by blast
    then obtain response where r: "send_GetQueryExecutionCommand w tr qid = Inr response"
      by (cases "send_GetQueryExecutionCommand w tr qid") auto
    with kp have nt: "response_state response \<noteq> Some SUCCEEDED"
      "\<not> (response_state response = Some FAILED \<or> response_state response = Some CANCELLED)"
      by auto
    let ?tr2 = "tr @ [?G, Sleep 1000]"
    from True r nt have step: "?L = waitForQueryCompletion_loop w qid maxAttempts timeout
               startTime (attempts + 1) ?tr2"
      by (subst waitForQueryCompletion_loop.simps) simp
    from loop_trace [where w = w and qid = qid and maxAttempts = maxAttempts
               and timeout = timeout and startTime = startTime and attempts = "attempts + 1"
               and tr = ?tr2]
    obtain added' where a': "snd (waitForQueryCompletion_loop w qid maxAttempts timeout
               startTime (attempts + 1) ?tr2) = ?tr2 @ added'"
      by blast
    with step "1.prems"(1) have added: "added = [?G, Sleep 1000] @ added'" by simp
    have kp': "\<forall>p rest. added' = p @ ?G # rest
           \<longrightarrow> keeps_polling (send_GetQueryExecutionCommand w (?tr2 @ p) qid)"
    proof (intro allI impI)
      fix p rest assume "added' = p @ ?G # rest"
      with added have "added = ([?G, Sleep 1000] @ p) @ ?G # rest" by simp
      with "1.prems"(2) have "keeps_polling (send_GetQueryExecutionCommand w
             (tr @ ([?G, Sleep 1000] @ p)) qid)" by blast
      then show "keeps_polling (send_GetQueryExecutionCommand w (?tr2 @ p) qid)" by simp
    qed
    from "1.IH" [OF _ _ r _ _ a' kp'] True nt
    obtain n' where res: "fst (waitForQueryCompletion_loop w qid maxAttempts timeout
               startTime (attempts + 1) ?tr2) = Inl (timeout_error qid)"
      and n': "added' = concat (replicate n' [?G, Sleep 1000])"
      and stop: "maxAttempts \<le> (attempts + 1) + int n'
                  \<or> budget_exhausted timeout (Date_now w (?tr2 @ added') - startTime)"
      by auto
    from added n' have "added = concat (replicate (Suc n') [?G, Sleep 1000])" by simp
    moreover from stop added have "maxAttempts \<le> attempts + int (Suc n')
        \<or> budget_exhausted timeout (Date_now w (tr @ added) - startTime)"
      by auto
    ultimately show ?thesis using res step by (intro conjI exI [of _ "Suc n'"]) auto
  qed
qed

text \<open>The equations that evaluate a run against the scripted backend.\<close>

lemmas QueryExecutionState_defs =
  QUEUED_def RUNNING_def SUCCEEDED_def FAILED_def CANCELLED_def

lemmas run_defs = scripted_def status_reply_def response_state_def response_reason_def
  always_running_def succeeded_at_once_def QueryExecutionState_defs timeout_error_def
  query_failed_error_def service_def

lemma always_running_keeps_polling:
  "keeps_polling (send_GetQueryExecutionCommand (scripted always_running page) h qid)"
  by (simp add: run_defs)

lemma late_keeps_polling:
  assumes "[GetQueryExecution i, Sleep 1000, GetQueryExecution i, Sleep 1000,
            GetQueryExecution i, Sleep 1000] = p @ GetQueryExecution i # rest"
  shows "keeps_polling (send_GetQueryExecutionCommand (scripted late page) ([] @ p) qid)"
proof -
  from assms have "length (filter is_status_request
       [GetQueryExecution i, Sleep 1000, GetQueryExecution i, Sleep 1000,
        GetQueryExecution i, Sleep 1000])
     = length (filter is_status_request (p @ GetQueryExecution i # rest))"
    by simp
  then have "length (filter is_status_request p) < 5" by simp
  then show ?thesis
    by (simp add: scripted_def late_def status_reply_def response_state_def
          QueryExecutionState_defs)
qed

text \<open>
  Claim C4. On a tick of the poll loop (an iteration that has attempts left, whose budget
  check passed and whose status request was answered): the state \<open>SUCCEEDED\<close> ends the
  loop with the response; \<open>FAILED\<close> and \<open>CANCELLED\<close> end it with the error
  \<open>QUERY_FAILED\<close>, whose message is the backend's reason when there is a non-empty one
  and \<open>Query failed\<close> otherwise; on every other state, a missing one included, the loop
  waits 1000 ms and goes on with one more attempt counted. Whenever the loop ends with an
  error, the error is the timeout, an exception of the backend, or \<open>QUERY_FAILED\<close> for
  an observed \<open>FAILED\<close> or \<open>CANCELLED\<close>: an unknown state alone never fails it.
\<close>

theorem poll_tick_verdict:
  assumes "attempts < maxAttempts"
    and "\<not> budget_exhausted timeout (Date_now w tr - startTime)"
    and "send_GetQueryExecutionCommand w tr qid = Inr response"
  shows "(response_state response = Some SUCCEEDED \<longrightarrow>
            waitForQueryCompletion_loop w qid maxAttempts timeout startTime attempts tr
              = (Inr response, tr @ [GetQueryExecution qid]))
       \<and> (response_state response = Some FAILED \<or> response_state response = Some CANCELLED \<longrightarrow>
            waitForQueryCompletion_loop w qid maxAttempts timeout startTime attempts tr
              = (Inl (Thrown \<lparr>message = (case response_reason response of
                                            None \<Rightarrow> ''Query failed''
                                          | Some r \<Rightarrow> if r = [] then ''Query failed'' else r),
                               code = ''QUERY_FAILED'', queryExecutionId = Some qid\<rparr>),
                 tr @ [GetQueryExecution qid]))
       \<and> (keeps_polling (Inr response) \<longrightarrow>
            waitForQueryCompletion_loop w qid maxAttempts timeout startTime attempts tr
              = waitForQueryCompletion_loop w qid maxAttempts timeout startTime (attempts + 1)
                  (tr @ [GetQueryExecution qid, Sleep 1000]))
       \<and> (\<forall>e. fst (waitForQueryCompletion_loop w qid maxAttempts timeout startTime attempts tr) = Inl e
              \<longrightarrow> e = timeout_error qid
                \<or> (\<exists>h. send_GetQueryExecutionCommand w h qid = Inl e)
                \<or> (\<exists>h r. send_GetQueryExecutionCommand w h qid = Inr r
                      \<and> (response_state r = Some FAILED \<or> response_state r = Some CANCELLED)
                      \<and> e = query_failed_error qid r))"
proof -
  let ?L = "waitForQueryCompletion_loop w qid maxAttempts timeout startTime attempts tr"
  have unfold: "?L =
     (if response_state response = Some SUCCEEDED
      then (Inr response, tr @ [GetQueryExecution qid])
      else if response_state response = Some FAILED \<or> response_state response = Some CANCELLED
      then (Inl (query_failed_error qid response), tr @ [GetQueryExecution qid])
      else waitForQueryCompletion_loop w qid maxAttempts timeout startTime (attempts + 1)
             (tr @ [GetQueryExecution qid, Sleep 1000]))"
    using assms by (subst waitForQueryCompletion_loop.simps) simp
  have a: "response_state response = Some SUCCEEDED \<longrightarrow> ?L = (Inr response, tr @ [GetQueryExecution qid])"
    using unfold by simp
  have msg: "str_or (response_reason response) ''Query failed'' =
     (case response_reason response of None \<Rightarrow> ''Query failed''
      | Some r \<Rightarrow> if r = [] then ''Query failed'' else r)"
    by (cases "response_reason response") simp_all
  have b: "response_state response = Some FAILED \<or> response_state response = Some CANCELLED \<longrightarrow>
      ?L = (Inl (Thrown \<lparr>message = (case response_reason response of
                                            None \<Rightarrow> ''Query failed''
                                          | Some r \<Rightarrow> if r = [] then ''Query failed'' else r),
                               code = ''QUERY_FAILED'', queryExecutionId = Some qid\<rparr>),
                 tr @ [GetQueryExecution qid])"
    using unfold msg by (auto simp: query_failed_error_def QueryExecutionState_defs)
  have c: "keeps_polling (Inr response) \<longrightarrow>
       ?L = waitForQueryCompletion_loop w qid maxAttempts timeout startTime (attempts + 1)
                  (tr @ [GetQueryExecution qid, Sleep 1000])"
    using unfold by simp
  have d: "\<forall>e. fst ?L = Inl e
              \<longrightarrow> e = timeout_error qid
                \<or> (\<exists>h. send_GetQueryExecutionCommand w h qid = Inl e)
                \<or> (\<exists>h r. send_GetQueryExecutionCommand w h qid = Inr r
                      \<and> (response_state r = Some FAILED \<or> response_state r = Some CANCELLED)
                      \<and> e = query_failed_error qid r)"
    using loop_verdicts [where w = w and qid = qid and maxAttempts = maxAttempts and timeout = timeout
        and startTime = startTime and attempts = attempts and tr = tr] by auto
  from a b c d show ?thesis by blast
qed

theorem poll_tick_verdict_witness:
  "waitForQueryCompletion_loop (scripted succeeded_at_once None) ''q-1'' 100 None 0 0 []
     = (Inr (status_reply (Some SUCCEEDED, None)), [GetQueryExecution ''q-1''])
   \<and> waitForQueryCompletion_loop (scripted failed_with_reason None) ''q-1'' 100 None 0 0 []
     = (Inl (Thrown \<lparr>message = ''syntax error'', code = ''QUERY_FAILED'',
                      queryExecutionId = Some ''q-1''\<rparr>), [GetQueryExecution ''q-1''])
   \<and> waitForQueryCompletion_loop (scripted unknown_then_succeeded None) ''q-1'' 100 None 0 0 []
     = (Inr (status_reply (Some SUCCEEDED, None)),
        [GetQueryExecution ''q-1'', Sleep 1000, GetQueryExecution ''q-1''])"
proof -
  have h1: "(0::int) < 100" by simp
  have h2: "\<not> budget_exhausted None (Date_now w [] - 0)" for w :: world by simp
  have s1: "send_GetQueryExecutionCommand (scripted succeeded_at_once None) [] ''q-1''
              = Inr (status_reply (Some SUCCEEDED, None))"
    by (simp add: scripted_def succeeded_at_once_def)
  have s2: "send_GetQueryExecutionCommand (scripted failed_with_reason None) [] ''q-1''
              = Inr (status_reply (Some FAILED, Some ''syntax error''))"
    by (simp add: scripted_def failed_with_reason_def)
  have s3: "send_GetQueryExecutionCommand (scripted unknown_then_succeeded None) [] ''q-1''
              = Inr (status_reply (None, None))"
    by (simp add: scripted_def unknown_then_succeeded_def)
  have s4: "send_GetQueryExecutionCommand (scripted unknown_then_succeeded None)
              [GetQueryExecution ''q-1'', Sleep 1000] ''q-1''
              = Inr (status_reply (Some SUCCEEDED, None))"
    by (simp add: scripted_def unknown_then_succeeded_def)
  have h4: "(1::int) < 100" by simp
  have h5: "\<not> budget_exhausted None
              (Date_now (scripted unknown_then_succeeded None) [GetQueryExecution ''q-1'', Sleep 1000] - 0)"
    by simp
  have a: "waitForQueryCompletion_loop (scripted succeeded_at_once None) ''q-1'' 100 None 0 0 []
     = (Inr (status_reply (Some SUCCEEDED, None)), [GetQueryExecution ''q-1''])"
    using poll_tick_verdict [OF h1 h2 s1]
    by (simp add: status_reply_def response_state_def)
  have b: "waitForQueryCompletion_loop (scripted failed_with_reason None) ''q-1'' 100 None 0 0 []
     = (Inl (Thrown \<lparr>message = ''syntax error'', code = ''QUERY_FAILED'',
                      queryExecutionId = Some ''q-1''\<rparr>), [GetQueryExecution ''q-1''])"
    using poll_tick_verdict [OF h1 h2 s2]
    by (simp add: status_reply_def response_state_def response_reason_def)
  have c1: "waitForQueryCompletion_loop (scripted unknown_then_succeeded None) ''q-1'' 100 None 0 0 []
     = waitForQueryCompletion_loop (scripted unknown_then_succeeded None) ''q-1'' 100 None 0 1
         [GetQueryExecution ''q-1'', Sleep 1000]"
    using poll_tick_verdict [OF h1 h2 s3]
    by (simp add: status_reply_def response_state_def)
  have c2: "waitForQueryCompletion_loop (scripted unknown_then_succeeded None) ''q-1'' 100 None 0 1
         [GetQueryExecution ''q-1'', Sleep 1000]
      = (Inr (status_reply (Some SUCCEEDED, None)),
        [GetQueryExecution ''q-1'', Sleep 1000, GetQueryExecution ''q-1''])"
    using poll_tick_verdict [OF h4 h5 s4]
    by (simp add: status_reply_def response_state_def)
  from a b c1 c2 show ?thesis by simp
qed

text \<open>
  Claim C5. The poll loop is bounded by the attempts and by the budget, whatever the
  backend and the clock do. A run of \<open>waitForQueryCompletion\<close> does nothing but status
  requests and waits of 1000 ms; it sends at most \<open>maxAttempts\<close> requests (100 by
  default), also without a budget; and it sends each request at a time when the budget
  is not exhausted. When every reply of the run keeps the loop polling, the run is a
  number of rounds of request and wait and ends with the \<open>TIMEOUT\<close> error, and it
  ends for the bound that is hit first: either all attempts are used, or the budget is
  exhausted at the top of the next iteration. (That the loop ends at all is the
  termination proof of \<open>waitForQueryCompletion_loop\<close>, by the attempts that are left.)
\<close>

theorem waitForQueryCompletion_bounded:
  "\<exists>added. snd (waitForQueryCompletion w qid maxAttempts timeout tr) = tr @ added
     \<and> set added \<subseteq> {GetQueryExecution qid, Sleep 1000}
     \<and> int (count_list added (GetQueryExecution qid))
          \<le> max 0 (case maxAttempts of None \<Rightarrow> 100 | Some n \<Rightarrow> n)
     \<and> (\<forall>p rest. added = p @ GetQueryExecution qid # rest \<longrightarrow>
           \<not> budget_exhausted timeout (Date_now w (tr @ p) - Date_now w tr))
     \<and> ((\<forall>p rest. added = p @ GetQueryExecution qid # rest \<longrightarrow>
            keeps_polling (send_GetQueryExecutionCommand w (tr @ p) qid)) \<longrightarrow>
          fst (waitForQueryCompletion w qid maxAttempts timeout tr) = Inl (timeout_error qid)
          \<and> (\<exists>n. added = concat (replicate n [GetQueryExecution qid, Sleep 1000])
                 \<and> (int n = max 0 (case maxAttempts of None \<Rightarrow> 100 | Some n \<Rightarrow> n)
                     \<or> budget_exhausted timeout (Date_now w (tr @ added) - Date_now w tr))))"
proof -
  let ?N = "case maxAttempts of None \<Rightarrow> 100 | Some n \<Rightarrow> n"
  let ?G = "GetQueryExecution qid"
  let ?L = "waitForQueryCompletion_loop w qid ?N timeout (Date_now w tr) 0 tr"
  from loop_trace [where w = w and qid = qid and timeout = timeout and startTime = "Date_now w tr"
      and attempts = 0 and tr = tr and maxAttempts = ?N]
  obtain added where snd: "snd ?L = tr @ added"
    and cnt: "int (count_list added ?G) \<le> max 0 ?N"
    and evs: "set added \<subseteq> {?G, Sleep 1000}"
    by auto
  have within: "\<forall>p rest. added = p @ ?G # rest \<longrightarrow>
           \<not> budget_exhausted timeout (Date_now w (tr @ p) - Date_now w tr)"
  proof (intro allI impI)
    fix p rest assume "added = p @ ?G # rest"
    with snd have "snd ?L = tr @ p @ ?G # rest" by simp
    then show "\<not> budget_exhausted timeout (Date_now w (tr @ p) - Date_now w tr)"
      by (rule loop_requests_within_budget)
  qed
  have verdict: "fst ?L = Inl (timeout_error qid)
          \<and> (\<exists>n. added = concat (replicate n [?G, Sleep 1000])
                 \<and> (int n = max 0 ?N
                     \<or> budget_exhausted timeout (Date_now w (tr @ added) - Date_now w tr)))"
    if kp: "\<forall>p rest. added = p @ ?G # rest \<longrightarrow>
            keeps_polling (send_GetQueryExecutionCommand w (tr @ p) qid)"
  proof -
    from loop_timeout_run [OF snd kp]
    obtain n where res: "fst ?L = Inl (timeout_error qid)"
      and n: "added = concat (replicate n [?G, Sleep 1000])"
      and stop: "?N \<le> 0 + int n
                  \<or> budget_exhausted timeout (Date_now w (tr @ added) - Date_now w tr)"
      by auto
    from n cnt have "int n \<le> max 0 ?N" by (simp add: count_rounds)
    with stop have "int n = max 0 ?N
        \<or> budget_exhausted timeout (Date_now w (tr @ added) - Date_now w tr)"
      by auto
    with res n show ?thesis by blast
  qed
  from snd evs cnt within verdict show ?thesis
    unfolding waitForQueryCompletion_def by blast
qed

theorem waitForQueryCompletion_bounded_witness:
  "waitForQueryCompletion (scripted always_running None) ''q-1'' (Some 3) None []
     = (Inl (timeout_error ''q-1''),
        [GetQueryExecution ''q-1'', Sleep 1000, GetQueryExecution ''q-1'', Sleep 1000,
         GetQueryExecution ''q-1'', Sleep 1000])
   \<and> waitForQueryCompletion (scripted always_running None) ''q-1'' (Some 100) (Some 1500) []
     = (Inl (timeout_error ''q-1''),
        [GetQueryExecution ''q-1'', Sleep 1000, GetQueryExecution ''q-1'', Sleep 1000])
   \<and> \<not> budget_exhausted (Some 1500)
         (Date_now (scripted always_running None) ([] @ [GetQueryExecution ''q-1'', Sleep 1000])
            - Date_now (scripted always_running None) [])
   \<and> budget_exhausted (Some 1500)
         (Date_now (scripted always_running None)
            [GetQueryExecution ''q-1'', Sleep 1000, GetQueryExecution ''q-1'', Sleep 1000]
            - Date_now (scripted always_running None) [])
   \<and> waitForQueryCompletion (scripted late None) ''q-1'' (Some 3) None []
     = (Inl (timeout_error ''q-1''),
        [GetQueryExecution ''q-1'', Sleep 1000, GetQueryExecution ''q-1'', Sleep 1000,
         GetQueryExecution ''q-1'', Sleep 1000])
   \<and> \<not> keeps_polling (send_GetQueryExecutionCommand (scripted late None)
           (replicate 5 (GetQueryExecution ''q-1'')) ''q-1'')"
proof -
  let ?G = "GetQueryExecution ''q-1''"
  let ?W = "scripted always_running None"
  let ?V = "scripted late None"
  let ?r2 = "[?G, Sleep 1000, ?G, Sleep 1000]"
  let ?r3 = "[?G, Sleep 1000, ?G, Sleep 1000, ?G, Sleep 1000]"
  have s1: "snd (waitForQueryCompletion ?W ''q-1'' (Some 3) None []) = ?r3"
    by (simp add: waitForQueryCompletion_def waitForQueryCompletion_loop.simps run_defs)
  have s2: "snd (waitForQueryCompletion ?W ''q-1'' (Some 100) (Some 1500) []) = ?r2"
    by (simp add: waitForQueryCompletion_def waitForQueryCompletion_loop.simps run_defs)
  have s3: "snd (waitForQueryCompletion ?V ''q-1'' (Some 3) None []) = ?r3"
    by (simp add: waitForQueryCompletion_def waitForQueryCompletion_loop.simps
          scripted_def late_def status_reply_def response_state_def QueryExecutionState_defs)
  have kpW: "keeps_polling (send_GetQueryExecutionCommand ?W ([] @ p) ''q-1'')" for p
    by (rule always_running_keeps_polling)
  from waitForQueryCompletion_bounded [where w = ?W and qid = "''q-1''"
        and maxAttempts = "Some 3" and timeout = None and tr = "[]"]
  obtain added1 where
    v1: "(\<forall>p rest. added1 = p @ ?G # rest \<longrightarrow>
            keeps_polling (send_GetQueryExecutionCommand ?W ([] @ p) ''q-1'')) \<longrightarrow>
          fst (waitForQueryCompletion ?W ''q-1'' (Some 3) None []) = Inl (timeout_error ''q-1'')
          \<and> (\<exists>n. added1 = concat (replicate n [?G, Sleep 1000])
                 \<and> (int n = max 0 (case Some 3 of None \<Rightarrow> 100 | Some n \<Rightarrow> n)
                     \<or> budget_exhausted None (Date_now ?W ([] @ added1) - Date_now ?W [])))"
    by (elim exE conjE)
  from v1 kpW
  have f1: "fst (waitForQueryCompletion ?W ''q-1'' (Some 3) None []) = Inl (timeout_error ''q-1'')"
    by simp
  from waitForQueryCompletion_bounded [where w = ?W and qid = "''q-1''"
        and maxAttempts = "Some 100" and timeout = "Some 1500" and tr = "[]"]
  obtain added where a2: "snd (waitForQueryCompletion ?W ''q-1'' (Some 100) (Some 1500) []) = [] @ added"
    and within: "\<forall>p rest. added = p @ ?G # rest \<longrightarrow>
           \<not> budget_exhausted (Some 1500) (Date_now ?W ([] @ p) - Date_now ?W [])"
    and v2: "(\<forall>p rest. added = p @ ?G # rest \<longrightarrow>
            keeps_polling (send_GetQueryExecutionCommand ?W ([] @ p) ''q-1'')) \<longrightarrow>
          fst (waitForQueryCompletion ?W ''q-1'' (Some 100) (Some 1500) []) = Inl (timeout_error ''q-1'')
          \<and> (\<exists>n. added = concat (replicate n [?G, Sleep 1000])
                 \<and> (int n = max 0 (case Some 100 of None \<Rightarrow> 100 | Some n \<Rightarrow> n)
                     \<or> budget_exhausted (Some 1500) (Date_now ?W ([] @ added) - Date_now ?W [])))"
    by (elim exE conjE)
  from v2 kpW
  have f2: "fst (waitForQueryCompletion ?W ''q-1'' (Some 100) (Some 1500) []) = Inl (timeout_error ''q-1'')"
    by simp
  from a2 s2 have "added = [?G, Sleep 1000] @ ?G # [Sleep 1000]" by simp
  with within [rule_format, of "[?G, Sleep 1000]" "[Sleep 1000]"]
  have b2: "\<not> budget_exhausted (Some 1500)
         (Date_now ?W ([] @ [?G, Sleep 1000]) - Date_now ?W [])"
    by simp
  have e2: "budget_exhausted (Some 1500) (Date_now ?W ?r2 - Date_now ?W [])"
    by (simp add: scripted_def)
  from waitForQueryCompletion_bounded [where w = ?V and qid = "''q-1''"
        and maxAttempts = "Some 3" and timeout = None and tr = "[]"]
  obtain added3 where a3: "snd (waitForQueryCompletion ?V ''q-1'' (Some 3) None []) = [] @ added3"
    and v3: "(\<forall>p rest. added3 = p @ ?G # rest \<longrightarrow>
            keeps_polling (send_GetQueryExecutionCommand ?V ([] @ p) ''q-1'')) \<longrightarrow>
          fst (waitForQueryCompletion ?V ''q-1'' (Some 3) None []) = Inl (timeout_error ''q-1'')
          \<and> (\<exists>n. added3 = concat (replicate n [?G, Sleep 1000])
                 \<and> (int n = max 0 (case Some 3 of None \<Rightarrow> 100 | Some n \<Rightarrow> n)
                     \<or> budget_exhausted None (Date_now ?V ([] @ added3) - Date_now ?V [])))"
    by (elim exE conjE)
  from a3 s3 have r3: "added3 = ?r3" by simp
  have "\<forall>p rest. added3 = p @ ?G # rest \<longrightarrow>
            keeps_polling (send_GetQueryExecutionCommand ?V ([] @ p) ''q-1'')"
    unfolding r3 by (intro allI impI) (rule late_keeps_polling)
  with v3
  have f3: "fst (waitForQueryCompletion ?V ''q-1'' (Some 3) None []) = Inl (timeout_error ''q-1'')"
    by (rule mp [THEN conjunct1])
  have l: "\<not> keeps_polling (send_GetQueryExecutionCommand ?V (replicate 5 ?G) ''q-1'')"
    by (simp add: scripted_def late_def status_reply_def response_state_def
          QueryExecutionState_defs numeral_eq_Suc)
  from f1 s1 have 1: "waitForQueryCompletion ?W ''q-1'' (Some 3) None [] = (Inl (timeout_error ''q-1''), ?r3)"
    by (simp add: prod_eq_iff)
  from f2 s2 have 2: "waitForQueryCompletion ?W ''q-1'' (Some 100) (Some 1500) []
      = (Inl (timeout_error ''q-1''), ?r2)"
    by (simp add: prod_eq_iff)
  from f3 s3 have 3: "waitForQueryCompletion ?V ''q-1'' (Some 3) None [] = (Inl (timeout_error ''q-1''), ?r3)"
    by (simp add: prod_eq_iff)
  from 1 2 b2 e2 3 l show ?thesis by (intro conjI)
qed

text \<open>
  Claim C10. The budget is checked at the top of an iteration, before the status request:
  in an iteration that starts when a (non-zero) budget \<open>t\<close> has elapsed since
  \<open>startTime\<close>, the loop throws \<open>TIMEOUT\<close> and the trace is unchanged, so no
  further request reaches the backend. Over a whole run of \<open>waitForQueryCompletion\<close>:
  whenever a status request is sent, less than \<open>t\<close> had elapsed since the loop began.
\<close>

theorem poll_budget_checked_first:
  "(attempts < maxAttempts \<and> t \<noteq> 0 \<and> t \<le> Date_now w tr - startTime \<longrightarrow>
      waitForQueryCompletion_loop w qid maxAttempts (Some t) startTime attempts tr
        = (Inl (timeout_error qid), tr))
   \<and> (t \<noteq> 0 \<and> snd (waitForQueryCompletion w qid attempts_opt (Some t) tr)
                   = tr @ p @ GetQueryExecution qid # rest \<longrightarrow>
      Date_now w (tr @ p) - Date_now w tr < t)"
proof -
  have a: "attempts < maxAttempts \<and> t \<noteq> 0 \<and> t \<le> Date_now w tr - startTime \<longrightarrow>
      waitForQueryCompletion_loop w qid maxAttempts (Some t) startTime attempts tr
        = (Inl (timeout_error qid), tr)"
    by (subst waitForQueryCompletion_loop.simps) simp
  have b: "Date_now w (tr @ p) - Date_now w tr < t"
    if "t \<noteq> 0" "snd (waitForQueryCompletion w qid attempts_opt (Some t) tr)
                   = tr @ p @ GetQueryExecution qid # rest"
    using that loop_requests_within_budget
      [where w = w and qid = qid and timeout = "Some t" and startTime = "Date_now w tr"
         and attempts = 0 and tr = tr and p = p and rest = rest
         and maxAttempts = "case attempts_opt of None \<Rightarrow> 100 | Some n \<Rightarrow> n"]
    by (simp add: waitForQueryCompletion_def)
  from a b show ?thesis by blast
qed

theorem poll_budget_checked_first_witness:
  "waitForQueryCompletion_loop (scripted always_running None) ''q-1'' 100 (Some 1000) 0 1
        [GetQueryExecution ''q-1'', Sleep 1000]
      = (Inl (Thrown \<lparr>message = ''Query timed out'', code = ''TIMEOUT'',
                       queryExecutionId = Some ''q-1''\<rparr>),
         [GetQueryExecution ''q-1'', Sleep 1000])
   \<and> snd (waitForQueryCompletion (scripted always_running None) ''q-1'' (Some 3) (Some 1500) [])
      = [] @ [GetQueryExecution ''q-1'', Sleep 1000] @ GetQueryExecution ''q-1'' # [Sleep 1000]
   \<and> Date_now (scripted always_running None) ([] @ [GetQueryExecution ''q-1'', Sleep 1000])
        - Date_now (scripted always_running None) [] < 1500"
proof -
  have h: "(1::int) < 100 \<and> (1000::int) \<noteq> 0
      \<and> 1000 \<le> Date_now (scripted always_running None) [GetQueryExecution ''q-1'', Sleep 1000] - 0"
    by (simp add: scripted_def)
  have 1: "waitForQueryCompletion_loop (scripted always_running None) ''q-1'' 100 (Some 1000) 0 1
        [GetQueryExecution ''q-1'', Sleep 1000]
      = (Inl (Thrown \<lparr>message = ''Query timed out'', code = ''TIMEOUT'',
                       queryExecutionId = Some ''q-1''\<rparr>),
         [GetQueryExecution ''q-1'', Sleep 1000])"
    using h poll_budget_checked_first
      [where attempts = 1 and maxAttempts = 100 and t = 1000 and startTime = 0
         and w = "scripted always_running None" and qid = "''q-1''"
         and tr = "[GetQueryExecution ''q-1'', Sleep 1000]"]
    by (simp add: timeout_error_def)
  have run: "snd (waitForQueryCompletion (scripted always_running None) ''q-1'' (Some 3) (Some 1500) [])
      = [] @ [GetQueryExecution ''q-1'', Sleep 1000] @ GetQueryExecution ''q-1'' # [Sleep 1000]"
    by (simp add: waitForQueryCompletion_def waitForQueryCompletion_loop.simps run_defs)
  have nz: "(1500::int) \<noteq> 0" by simp
  from nz run poll_budget_checked_first
      [where t = 1500 and w = "scripted always_running None" and qid = "''q-1''"
         and attempts_opt = "Some 3" and tr = "[]"
         and p = "[GetQueryExecution ''q-1'', Sleep 1000]" and rest = "[Sleep 1000]"]
  have 2: "Date_now (scripted always_running None) ([] @ [GetQueryExecution ''q-1'', Sleep 1000])
        - Date_now (scripted always_running None) [] < 1500"
    by blast
  from 1 run 2 show ?thesis by blast
qed

section \<open>executeQuery\<close>

text \<open>
  Claim C1. When the submission returned a handle and the poll loop ended with its
  \<open>TIMEOUT\<close> error, \<open>executeQuery\<close> returns the object that holds this handle and
  nothing else, and the tool call \<open>run_query\<close> answers with it as a success.
\<close>

theorem executeQuery_timeout_returns_handle:
  assumes "send_StartQueryExecutionCommand w tr q d (outputLocation this) = Inr startResponse"
    and "QueryExecutionId startResponse = Some qid" and "qid \<noteq> []"
    and "waitForQueryCompletion w qid (Some 100) (Some (num_or (as_number (arg args ''timeoutMs'')) 60000))
           (tr @ [StartQueryExecution q d (outputLocation this)]) = (Inl (timeout_error qid), tr')"
    and "args ''database'' = Some (JString d)" and "args ''query'' = Some (JString q)"
  shows "executeQuery w this
           \<lparr>database = d, query = q, maxRows = as_number (arg args ''maxRows''),
            timeoutMs = as_number (arg args ''timeoutMs'')\<rparr> tr
           = (Inr (ExecutionIdOnly qid), tr')
       \<and> call_tool w this \<lparr>name = ''run_query'', arguments = Some args\<rparr> tr
           = (Inr (Content (RunResult (ExecutionIdOnly qid))), tr')"
proof -
  have e: "executeQuery w this
           \<lparr>database = d, query = q, maxRows = as_number (arg args ''maxRows''),
            timeoutMs = as_number (arg args ''timeoutMs'')\<rparr> tr
           = (Inr (ExecutionIdOnly qid), tr')"
    using assms(1-4)
    by (simp add: executeQuery_def catch_timeout_def timeout_error_def)
  then show ?thesis
    using assms(5,6) by (simp add: call_tool_def run_query_def arg_def)
qed

theorem executeQuery_timeout_returns_handle_witness:
  "call_tool (scripted always_running None) service
      \<lparr>name = ''run_query'', arguments = Some timeout_args\<rparr> []
    = (Inr (Content (RunResult (ExecutionIdOnly ''q-1''))),
       [StartQueryExecution ''SELECT 1'' ''db'' ''s3://bucket/out/'',
        GetQueryExecution ''q-1'', Sleep 1000, GetQueryExecution ''q-1'', Sleep 1000])"
proof -
  have h1: "send_StartQueryExecutionCommand (scripted always_running None) []
              ''SELECT 1'' ''db'' (outputLocation service) = Inr \<lparr>QueryExecutionId = Some ''q-1''\<rparr>"
    by (simp add: scripted_def)
  have h2: "QueryExecutionId \<lparr>QueryExecutionId = Some ''q-1''\<rparr> = Some ''q-1''" by simp
  have h3: "''q-1'' \<noteq> []" by simp
  have h4: "waitForQueryCompletion (scripted always_running None) ''q-1'' (Some 100)
              (Some (num_or (as_number (arg timeout_args ''timeoutMs'')) 60000))
              ([] @ [StartQueryExecution ''SELECT 1'' ''db'' (outputLocation service)])
            = (Inl (timeout_error ''q-1''),
               [StartQueryExecution ''SELECT 1'' ''db'' ''s3://bucket/out/'',
                GetQueryExecution ''q-1'', Sleep 1000, GetQueryExecution ''q-1'', Sleep 1000])"
    by (simp add: waitForQueryCompletion_def waitForQueryCompletion_loop.simps run_defs
          timeout_args_def arg_def)
  have h5: "timeout_args ''database'' = Some (JString ''db'')"
    by (simp add: timeout_args_def)
  have h6: "timeout_args ''query'' = Some (JString ''SELECT 1'')"
    by (simp add: timeout_args_def)
  from executeQuery_timeout_returns_handle [OF h1 h2 h3 h4 h5 h6]
  show ?thesis by simp
qed

section \<open>Status query and result fetch\<close>

lemma getQueryStatus_trace:
  "snd (getQueryStatus w qid tr) = tr @ [GetQueryExecution qid]"
  by (simp add: getQueryStatus_def split: sum.splits option.splits)

lemma scripted_status:
  "getQueryStatus (scripted script page) qid tr =
     (Inr (observed (str_or (fst (script (length (filter is_status_request tr)))) ''UNKNOWN'')
             (snd (script (length (filter is_status_request tr))))),
      tr @ [GetQueryExecution qid])"
  by (simp add: getQueryStatus_def scripted_def status_reply_def observed_def)

lemma getQueryResults_success:
  assumes "getQueryResults w qid m tr = (Inr r, tr')"
  shows "\<exists>status rs.
           getQueryStatus w qid tr = (Inr status, tr @ [GetQueryExecution qid])
         \<and> state status = SUCCEEDED
         \<and> send_GetQueryResultsCommand w (tr @ [GetQueryExecution qid]) qid (num_or m 1000)
             = Inr \<lparr>ResultSet = Some rs\<rparr>
         \<and> tr' = tr @ [GetQueryExecution qid, GetQueryResults qid (num_or m 1000)]
         \<and> r = \<lparr>columns = result_columns rs, rows = result_rows rs,
                 result_queryExecutionId = qid,
                 bytesScanned = num_or (map_option dataScannedInBytes (statistics status)) 0,
                 executionTime = num_or (map_option engineExecutionTimeInMillis (statistics status)) 0\<rparr>"
proof -
  obtain res tr1 where st: "getQueryStatus w qid tr = (res, tr1)"
    by (cases "getQueryStatus w qid tr")
  with getQueryStatus_trace [of w qid tr] have tr1: "tr1 = tr @ [GetQueryExecution qid]" by simp
  from assms st obtain status where res: "res = Inr status"
    by (cases res) (auto simp: getQueryResults_def)
  from assms st res have ok: "state status = SUCCEEDED"
    by (auto simp: getQueryResults_def split: if_splits)
  from assms st res ok obtain results where
    send: "send_GetQueryResultsCommand w tr1 qid (num_or m 1000) = Inr results"
    by (cases "send_GetQueryResultsCommand w tr1 qid (num_or m 1000)")
       (auto simp: getQueryResults_def QueryExecutionState_defs split: if_splits)
  from assms st res ok send obtain rs where rs: "ResultSet results = Some rs"
    by (cases "ResultSet results")
       (auto simp: getQueryResults_def QueryExecutionState_defs split: if_splits)
  then have results: "results = \<lparr>ResultSet = Some rs\<rparr>"
    by (cases results) simp
  from assms st res ok send rs have
    "tr' = tr1 @ [GetQueryResults qid (num_or m 1000)]"
    "r = \<lparr>columns = result_columns rs, rows = result_rows rs,
                 result_queryExecutionId = qid,
                 bytesScanned = num_or (map_option dataScannedInBytes (statistics status)) 0,
                 executionTime = num_or (map_option engineExecutionTimeInMillis (statistics status)) 0\<rparr>"
    by (auto simp: getQueryResults_def QueryExecutionState_defs split: if_splits)
  with st res ok send results tr1 show ?thesis by auto
qed

text \<open>
  Claim C9. \<open>getQueryStatus\<close> fails with the code \<open>QUERY_NOT_FOUND\<close> when the
  backend rejects the handle with an \<open>InvalidRequestException\<close>, and when its response
  holds no execution; every other exception of the backend is thrown on as it is.
\<close>

theorem getQueryStatus_not_found:
  "(send_GetQueryExecutionCommand w tr qid = Inl (InvalidRequestException m) \<longrightarrow>
      getQueryStatus w qid tr =
        (Inl (Thrown \<lparr>message = ''Query execution not found'', code = ''QUERY_NOT_FOUND'',
                       queryExecutionId = None\<rparr>), tr @ [GetQueryExecution qid]))
   \<and> (send_GetQueryExecutionCommand w tr qid = Inr response \<and> QueryExecution response = None \<longrightarrow>
      getQueryStatus w qid tr =
        (Inl (Thrown \<lparr>message = ''Query execution not found'', code = ''QUERY_NOT_FOUND'',
                       queryExecutionId = None\<rparr>), tr @ [GetQueryExecution qid]))
   \<and> (send_GetQueryExecutionCommand w tr qid = Inl e \<and> (\<forall>m'. e \<noteq> InvalidRequestException m') \<longrightarrow>
      getQueryStatus w qid tr = (Inl e, tr @ [GetQueryExecution qid]))"
proof -
  have "catch_not_found e = e" if "\<forall>m'. e \<noteq> InvalidRequestException m'"
    using that by (cases e) simp_all
  then show ?thesis
    by (auto simp: getQueryStatus_def not_found_error_def)
qed

theorem getQueryStatus_not_found_witness:
  "getQueryStatus (rejecting (InvalidRequestException ''QueryExecution q-404 was not found'')) ''q-404'' []
     = (Inl (Thrown \<lparr>message = ''Query execution not found'', code = ''QUERY_NOT_FOUND'',
                      queryExecutionId = None\<rparr>), [GetQueryExecution ''q-404''])
   \<and> getQueryStatus no_execution ''q-404'' []
     = (Inl (Thrown \<lparr>message = ''Query execution not found'', code = ''QUERY_NOT_FOUND'',
                      queryExecutionId = None\<rparr>), [GetQueryExecution ''q-404''])
   \<and> getQueryStatus (rejecting (JsError ''Rate exceeded'' (Some ''ThrottlingException''))) ''q-1'' []
     = (Inl (JsError ''Rate exceeded'' (Some ''ThrottlingException'')), [GetQueryExecution ''q-1''])"
proof -
  have a: "send_GetQueryExecutionCommand
             (rejecting (InvalidRequestException ''QueryExecution q-404 was not found'')) [] ''q-404''
           = Inl (InvalidRequestException ''QueryExecution q-404 was not found'')"
    by (simp add: rejecting_def scripted_def)
  have b: "send_GetQueryExecutionCommand no_execution [] ''q-404'' = Inr \<lparr>QueryExecution = None\<rparr>
           \<and> QueryExecution \<lparr>QueryExecution = None\<rparr> = None"
    by (simp add: no_execution_def scripted_def)
  have c: "send_GetQueryExecutionCommand
             (rejecting (JsError ''Rate exceeded'' (Some ''ThrottlingException''))) [] ''q-1''
           = Inl (JsError ''Rate exceeded'' (Some ''ThrottlingException''))
           \<and> (\<forall>m'. JsError ''Rate exceeded'' (Some ''ThrottlingException'') \<noteq> InvalidRequestException m')"
    by (simp add: rejecting_def scripted_def)
  from a getQueryStatus_not_found
         [where w = "rejecting (InvalidRequestException ''QueryExecution q-404 was not found'')"
            and tr = "[]" and qid = "''q-404''" and m = "''QueryExecution q-404 was not found''"]
  have 1: "getQueryStatus (rejecting (InvalidRequestException ''QueryExecution q-404 was not found'')) ''q-404'' []
     = (Inl (Thrown \<lparr>message = ''Query execution not found'', code = ''QUERY_NOT_FOUND'',
                      queryExecutionId = None\<rparr>), [GetQueryExecution ''q-404''])"
    by simp
  from b getQueryStatus_not_found
         [where w = no_execution and tr = "[]" and qid = "''q-404''"
            and response = "\<lparr>QueryExecution = None\<rparr>"]
  have 2: "getQueryStatus no_execution ''q-404'' []
     = (Inl (Thrown \<lparr>message = ''Query execution not found'', code = ''QUERY_NOT_FOUND'',
                      queryExecutionId = None\<rparr>), [GetQueryExecution ''q-404''])"
    by simp
  from c getQueryStatus_not_found
         [where w = "rejecting (JsError ''Rate exceeded'' (Some ''ThrottlingException''))"
            and tr = "[]" and qid = "''q-1''"
            and e = "JsError ''Rate exceeded'' (Some ''ThrottlingException'')"]
  have 3: "getQueryStatus (rejecting (JsError ''Rate exceeded'' (Some ''ThrottlingException''))) ''q-1'' []
     = (Inl (JsError ''Rate exceeded'' (Some ''ThrottlingException'')), [GetQueryExecution ''q-1''])"
    by simp
  from 1 2 3 show ?thesis by blast
qed



section \<open>The result decoder\<close>

text \<open>A key that no position of the row writes keeps what it had.\<close>

lemma forEach_Data_other:
  assumes "k = [] \<or> k = ''__proto__'' \<or> (\<forall>j. j < length ds \<and> n + j < length cols \<longrightarrow> cols ! (n + j) \<noteq> k)"
  shows "forEach_Data cols ds n obj k = obj k"
  using assms
proof (induction ds arbitrary: n obj)
  case Nil
  then show ?case by simp
next
  case (Cons d ds)
  have rest: "k = [] \<or> k = ''__proto__''
      \<or> (\<forall>j. j < length ds \<and> (n + 1) + j < length cols \<longrightarrow> cols ! ((n + 1) + j) \<noteq> k)"
  proof -
    { assume a: "\<forall>j. j < length (d # ds) \<and> n + j < length cols \<longrightarrow> cols ! (n + j) \<noteq> k"
      have "\<forall>j. j < length ds \<and> (n + 1) + j < length cols \<longrightarrow> cols ! ((n + 1) + j) \<noteq> k"
      proof (intro allI impI)
        fix j assume "j < length ds \<and> (n + 1) + j < length cols"
        then have "Suc j < length (d # ds) \<and> n + Suc j < length cols" by simp
        with a have "cols ! (n + Suc j) \<noteq> k" by blast
        then show "cols ! ((n + 1) + j) \<noteq> k" by simp
      qed }
    with Cons.prems show ?thesis by blast
  qed
  have here: "(if truthy_str (column_at cols n)
        then js_assign obj (cols ! n) (VarCharValue d) else obj) k = obj k"
  proof -
    { assume a: "\<forall>j. j < length (d # ds) \<and> n + j < length cols \<longrightarrow> cols ! (n + j) \<noteq> k"
      have "n < length cols \<longrightarrow> cols ! n \<noteq> k" using a [rule_format, of 0] by simp }
    with Cons.prems show ?thesis
      by (auto simp: js_assign_def column_at_def)
  qed
  from Cons.IH [OF rest] here show ?case by simp
qed

text \<open>The last position that carries a name decides what the record holds under it.\<close>

lemma forEach_Data_last:
  assumes "i < length ds" and "n + i < length cols" and "cols ! (n + i) = k"
    and "k \<noteq> []" and "k \<noteq> ''__proto__''"
    and "\<forall>j. i < j \<and> j < length ds \<and> n + j < length cols \<longrightarrow> cols ! (n + j) \<noteq> k"
  shows "forEach_Data cols ds n obj k = Some (VarCharValue (ds ! i))"
  using assms
proof (induction ds arbitrary: n obj i)
  case Nil
  then show ?case by simp
next
  case (Cons d ds)
  show ?case
  proof (cases i)
    case 0
    have later: "\<forall>j. j < length ds \<and> (n + 1) + j < length cols \<longrightarrow> cols ! ((n + 1) + j) \<noteq> k"
    proof (intro allI impI)
      fix j assume "j < length ds \<and> (n + 1) + j < length cols"
      then have "i < Suc j \<and> Suc j < length (d # ds) \<and> n + Suc j < length cols"
        using 0 by simp
      with Cons.prems(6) have "cols ! (n + Suc j) \<noteq> k" by blast
      then show "cols ! ((n + 1) + j) \<noteq> k" by simp
    qed
    from Cons.prems 0 have "(if truthy_str (column_at cols n)
        then js_assign obj (cols ! n) (VarCharValue d) else obj) k = Some (VarCharValue d)"
      by (simp add: js_assign_def column_at_def)
    with forEach_Data_other [of k ds "n + 1" cols] later 0 show ?thesis
      by simp
  next
    case (Suc i')
    have later: "\<forall>j. i' < j \<and> j < length ds \<and> (n + 1) + j < length cols \<longrightarrow> cols ! ((n + 1) + j) \<noteq> k"
    proof (intro allI impI)
      fix j assume "i' < j \<and> j < length ds \<and> (n + 1) + j < length cols"
      then have "i < Suc j \<and> Suc j < length (d # ds) \<and> n + Suc j < length cols"
        using Suc by simp
      with Cons.prems(6) have "cols ! (n + Suc j) \<noteq> k" by blast
      then show "cols ! ((n + 1) + j) \<noteq> k" by simp
    qed
    from Cons.prems Suc have p: "i' < length ds" "(n + 1) + i' < length cols" "cols ! ((n + 1) + i') = k"
      by simp_all
    from Cons.IH [OF p Cons.prems(4,5) later] Suc show ?thesis by simp
  qed
qed

lemma result_columns_names:
  "result_columns rs =
     map (\<lambda>col. case Name col of None \<Rightarrow> [] | Some n \<Rightarrow> n)
       (case Option.bind (ResultSetMetadata rs) ColumnInfo of None \<Rightarrow> [] | Some infos \<Rightarrow> infos)"
proof -
  have "str_or x [] = (case x of None \<Rightarrow> [] | Some n \<Rightarrow> n)" for x
    by (cases x) simp_all
  then show ?thesis
    by (simp add: result_columns_def split: option.splits)
qed

text \<open>The equations that evaluate the decoder on a concrete page.\<close>

lemmas decode_defs = result_rows_def result_columns_def row_record_def column_at_def
  js_assign_def cell_def null_cell_def example_page_def unnamed_column_page_def

text \<open>
  Claim C7. A successful fetch builds its records from the rows of the backend's result
  set without the first one, in order: one record less than there are rows. The witness
  is the example of the specification: under the header row, the rows \<open>["1","x"]\<close> and
  \<open>["2",null]\<close> give exactly the records \<open>{col_a: "1", col_b: "x"}\<close> and
  \<open>{col_a: "2", col_b: undefined}\<close>; the missing cell is not the empty string.
\<close>

theorem decoder_discards_header_row:
  assumes "getQueryResults w qid m tr = (Inr r, tr')"
  shows "\<exists>rs. send_GetQueryResultsCommand w (tr @ [GetQueryExecution qid]) qid (num_or m 1000)
                = Inr \<lparr>ResultSet = Some rs\<rparr>
           \<and> rows r = map (row_record (columns r))
                         (drop 1 (case Rows rs of None \<Rightarrow> [] | Some rws \<Rightarrow> rws))
           \<and> length (rows r) = length (case Rows rs of None \<Rightarrow> [] | Some rws \<Rightarrow> rws) - 1"
proof -
  from getQueryResults_success [OF assms] obtain status :: QueryStatus and rs where
    send: "send_GetQueryResultsCommand w (tr @ [GetQueryExecution qid]) qid (num_or m 1000)
             = Inr \<lparr>ResultSet = Some rs\<rparr>"
    and r: "r = \<lparr>columns = result_columns rs, rows = result_rows rs,
                 result_queryExecutionId = qid,
                 bytesScanned = num_or (map_option dataScannedInBytes (statistics status)) 0,
                 executionTime = num_or (map_option engineExecutionTimeInMillis (statistics status)) 0\<rparr>"
    by blast
  from r have "rows r = map (row_record (columns r))
                         (drop 1 (case Rows rs of None \<Rightarrow> [] | Some rws \<Rightarrow> rws))"
    by (simp add: result_rows_def)
  with send show ?thesis by auto
qed

theorem decoder_discards_header_row_witness:
  "getQueryResults (scripted succeeded_at_once (Some example_page)) ''q-1'' None []
     = (Inr \<lparr>columns = [''col_a'', ''col_b''],
             rows = [[''col_a'' \<mapsto> Some ''1'', ''col_b'' \<mapsto> Some ''x''],
                     [''col_a'' \<mapsto> Some ''2'', ''col_b'' \<mapsto> None]],
             result_queryExecutionId = ''q-1'', bytesScanned = 2048, executionTime = 35\<rparr>,
        [GetQueryExecution ''q-1'', GetQueryResults ''q-1'' 1000])
   \<and> [''col_a'' \<mapsto> Some ''2'', ''col_b'' \<mapsto> None] ''col_b'' \<noteq> Some (Some [])"
proof -
  have run: "getQueryResults (scripted succeeded_at_once (Some example_page)) ''q-1'' None []
     = (Inr \<lparr>columns = [''col_a'', ''col_b''], rows = result_rows example_page,
             result_queryExecutionId = ''q-1'', bytesScanned = 2048, executionTime = 35\<rparr>,
        [GetQueryExecution ''q-1'', GetQueryResults ''q-1'' 1000])"
    by (simp add: getQueryResults_def scripted_status succeeded_at_once_def observed_def
          QueryExecutionState_defs, simp add: scripted_def result_columns_def example_page_def)
  from decoder_discards_header_row [OF run] have
    "result_rows example_page = map (row_record [''col_a'', ''col_b''])
        (drop 1 (case Rows example_page of None \<Rightarrow> [] | Some rws \<Rightarrow> rws))"
    by (auto simp: scripted_def)
  then have "result_rows example_page =
       [[''col_a'' \<mapsto> Some ''1'', ''col_b'' \<mapsto> Some ''x''],
        [''col_a'' \<mapsto> Some ''2'', ''col_b'' \<mapsto> None]]"
    by (simp add: example_page_def row_record_def column_at_def js_assign_def cell_def null_cell_def)
  with run show ?thesis by simp
qed

text \<open>
  Claim C3, as stated, fails: with a second column that has no name, the cell \<open>"2"\<close>
  under it is in no record; the record has no entry for the empty name.
\<close>

theorem unnamed_column_cell_not_in_record:
  "getQueryResults (scripted succeeded_at_once (Some unnamed_column_page)) ''q-1'' None []
     = (Inr \<lparr>columns = [''a'', []], rows = [[''a'' \<mapsto> Some ''1'']],
             result_queryExecutionId = ''q-1'', bytesScanned = 2048, executionTime = 35\<rparr>,
        [GetQueryExecution ''q-1'', GetQueryResults ''q-1'' 1000])
   \<and> \<not> (row_record (result_columns unnamed_column_page) \<lparr>Data = Some [cell ''1'', cell ''2'']\<rparr>
           (result_columns unnamed_column_page ! 1) = Some (VarCharValue (cell ''2'')))"
  by (simp add: getQueryResults_def scripted_status succeeded_at_once_def observed_def
        QueryExecutionState_defs, simp add: scripted_def decode_defs)

text \<open>
  Claim C3, amended. For every successful fetch, \<open>columns\<close> has one entry for each
  column descriptor of the backend, in order, the empty string for a column without a
  name. A record maps a column name that is not empty (and is not \<open>__proto__\<close>) to the
  cell of its row at the same position, the last such position when the name repeats. A
  cell under a column without a name is skipped: no record has an entry for the empty
  name.
\<close>

theorem decoded_columns_and_records:
  assumes "getQueryResults w qid m tr = (Inr r, tr')"
  shows "\<exists>rs. send_GetQueryResultsCommand w (tr @ [GetQueryExecution qid]) qid (num_or m 1000)
                = Inr \<lparr>ResultSet = Some rs\<rparr>
     \<and> columns r =
         map (\<lambda>col. case Name col of None \<Rightarrow> [] | Some n \<Rightarrow> n)
           (case Option.bind (ResultSetMetadata rs) ColumnInfo of None \<Rightarrow> [] | Some infos \<Rightarrow> infos)
     \<and> rows r = map (row_record (columns r))
                   (drop 1 (case Rows rs of None \<Rightarrow> [] | Some rws \<Rightarrow> rws))
     \<and> (\<forall>row ds i. Data row = Some ds \<and> i < length ds \<and> i < length (columns r)
            \<and> columns r ! i \<noteq> [] \<and> columns r ! i \<noteq> ''__proto__''
            \<and> (\<forall>j. i < j \<and> j < length ds \<and> j < length (columns r)
                   \<longrightarrow> columns r ! j \<noteq> columns r ! i)
          \<longrightarrow> row_record (columns r) row (columns r ! i) = Some (VarCharValue (ds ! i)))
     \<and> (\<forall>row. row_record (columns r) row [] = None)"
proof -
  from getQueryResults_success [OF assms] obtain status :: QueryStatus and rs where
    send: "send_GetQueryResultsCommand w (tr @ [GetQueryExecution qid]) qid (num_or m 1000)
             = Inr \<lparr>ResultSet = Some rs\<rparr>"
    and r: "r = \<lparr>columns = result_columns rs, rows = result_rows rs,
                 result_queryExecutionId = qid,
                 bytesScanned = num_or (map_option dataScannedInBytes (statistics status)) 0,
                 executionTime = num_or (map_option engineExecutionTimeInMillis (statistics status)) 0\<rparr>"
    by blast
  from r have c: "columns r =
         map (\<lambda>col. case Name col of None \<Rightarrow> [] | Some n \<Rightarrow> n)
           (case Option.bind (ResultSetMetadata rs) ColumnInfo of None \<Rightarrow> [] | Some infos \<Rightarrow> infos)"
    by (simp add: result_columns_names)
  from r have rw: "rows r = map (row_record (columns r))
                         (drop 1 (case Rows rs of None \<Rightarrow> [] | Some rws \<Rightarrow> rws))"
    by (simp add: result_rows_def)
  have named: "row_record cols row (cols ! i) = Some (VarCharValue (ds ! i))"
    if "Data row = Some ds" "i < length ds" "i < length cols" "cols ! i \<noteq> []"
       "cols ! i \<noteq> ''__proto__''"
       "\<forall>j. i < j \<and> j < length ds \<and> j < length cols \<longrightarrow> cols ! j \<noteq> cols ! i"
    for cols row ds i
    using that forEach_Data_last [of i ds 0 cols "cols ! i" Map.empty]
    by (simp add: row_record_def)
  have unnamed: "row_record cols row [] = None" for cols row
    using forEach_Data_other [of "[]" _ 0 cols Map.empty]
    by (simp add: row_record_def split: option.splits)
  from send c rw named unnamed show ?thesis by blast
qed

theorem decoded_columns_and_records_witness:
  "getQueryResults (scripted succeeded_at_once (Some unnamed_column_page)) ''q-1'' None []
     = (Inr \<lparr>columns = [''a'', []], rows = [[''a'' \<mapsto> Some ''1'']],
             result_queryExecutionId = ''q-1'', bytesScanned = 2048, executionTime = 35\<rparr>,
        [GetQueryExecution ''q-1'', GetQueryResults ''q-1'' 1000])
   \<and> row_record [''a'', []] \<lparr>Data = Some [cell ''1'', cell ''2'']\<rparr> ''a'' = Some (Some ''1'')
   \<and> row_record [''a'', []] \<lparr>Data = Some [cell ''1'', cell ''2'']\<rparr> [] = None"
proof -
  let ?row = "\<lparr>Data = Some [cell ''1'', cell ''2'']\<rparr>"
  have run: "getQueryResults (scripted succeeded_at_once (Some unnamed_column_page)) ''q-1'' None []
     = (Inr \<lparr>columns = [''a'', []], rows = [[''a'' \<mapsto> Some ''1'']],
             result_queryExecutionId = ''q-1'', bytesScanned = 2048, executionTime = 35\<rparr>,
        [GetQueryExecution ''q-1'', GetQueryResults ''q-1'' 1000])"
    by (simp add: getQueryResults_def scripted_status succeeded_at_once_def observed_def
          QueryExecutionState_defs, simp add: scripted_def decode_defs)
  from decoded_columns_and_records [OF run] have
    named: "\<forall>row ds i. Data row = Some ds \<and> i < length ds \<and> i < length [''a'', []]
            \<and> [''a'', []] ! i \<noteq> [] \<and> [''a'', []] ! i \<noteq> ''__proto__''
            \<and> (\<forall>j. i < j \<and> j < length ds \<and> j < length [''a'', []]
                   \<longrightarrow> [''a'', []] ! j \<noteq> [''a'', []] ! i)
          \<longrightarrow> row_record [''a'', []] row ([''a'', []] ! i) = Some (VarCharValue (ds ! i))"
    and unnamed: "\<forall>row. row_record [''a'', []] row [] = None"
    by auto
  have later: "\<forall>j. 0 < j \<and> j < length [cell ''1'', cell ''2''] \<and> j < length [''a'', []]
                \<longrightarrow> [''a'', []] ! j \<noteq> [''a'', []] ! 0"
    by (auto simp: less_Suc_eq numeral_2_eq_2)
  from named [rule_format, of ?row "[cell ''1'', cell ''2'']" 0] later
  have "row_record [''a'', []] ?row ''a'' = Some (Some ''1'')"
    by (simp add: cell_def)
  with run unnamed show ?thesis by simp
qed

section \<open>The tool surface\<close>

text \<open>The traces only grow; \<open>executeQuery\<close> starts with the submission.\<close>

lemma getQueryResults_trace:
  "\<exists>added. snd (getQueryResults w qid m tr) = tr @ added"
proof (cases "getQueryStatus w qid tr")
  case (Pair res tr1)
  with getQueryStatus_trace [of w qid tr] have "tr1 = tr @ [GetQueryExecution qid]" by simp
  with Pair show ?thesis
    by (cases res) (auto simp: getQueryResults_def split: sum.splits option.splits)
qed

lemma waitForQueryCompletion_trace:
  "\<exists>added. snd (waitForQueryCompletion w qid maxAttempts timeout tr) = tr @ added"
  unfolding waitForQueryCompletion_def
  using loop_trace [where w = w and qid = qid and timeout = timeout and startTime = "Date_now w tr"
      and attempts = 0 and tr = tr
      and maxAttempts = "case maxAttempts of None \<Rightarrow> 100 | Some n \<Rightarrow> n"]
  by blast

lemma executeQuery_submits:
  "\<exists>added. snd (executeQuery w this input tr)
     = tr @ StartQueryExecution (query input) (database input) (outputLocation this) # added"
proof -
  let ?tr1 = "tr @ [StartQueryExecution (query input) (database input) (outputLocation this)]"
  have poll: "\<exists>added. snd (case waitForQueryCompletion w qid (Some 100) t ?tr1 of
             (Inl error, tr2) \<Rightarrow> (catch_timeout qid error, tr2)
           | (Inr queryExecution, tr2) \<Rightarrow>
               (case getQueryResults w qid (maxRows input) tr2 of
                  (Inl error, tr3) \<Rightarrow> (catch_timeout qid error, tr3)
                | (Inr result, tr3) \<Rightarrow> (Inr (Full result), tr3))) = ?tr1 @ added" for qid t
  proof (cases "waitForQueryCompletion w qid (Some 100) t ?tr1")
    case (Pair res tr2)
    with waitForQueryCompletion_trace [of w qid "Some 100" t ?tr1]
    obtain a1 where a1: "tr2 = ?tr1 @ a1" by auto
    show ?thesis
    proof (cases res)
      case (Inl error)
      with Pair a1 show ?thesis by simp
    next
      case (Inr queryExecution)
      obtain res3 tr3 where g: "getQueryResults w qid (maxRows input) tr2 = (res3, tr3)"
        by (cases "getQueryResults w qid (maxRows input) tr2")
      with getQueryResults_trace [of w qid "maxRows input" tr2]
      obtain a2 where "tr3 = tr2 @ a2" by auto
      with Pair Inr g a1 show ?thesis
        by (cases res3) simp_all
    qed
  qed
  show ?thesis
  proof (cases "send_StartQueryExecutionCommand w tr (query input) (database input) (outputLocation this)")
    case (Inl ex)
    then show ?thesis by (simp add: executeQuery_def)
  next
    case (Inr startResponse)
    show ?thesis
    proof (cases "QueryExecutionId startResponse")
      case None
      with Inr show ?thesis by (simp add: executeQuery_def)
    next
      case (Some qid)
      show ?thesis
      proof (cases "qid = []")
        case True
        with Inr Some show ?thesis by (simp add: executeQuery_def)
      next
        case False
        from poll [of qid "Some (num_or (timeoutMs input) 60000)"]
        obtain added where "snd (case waitForQueryCompletion w qid (Some 100)
             (Some (num_or (timeoutMs input) 60000)) ?tr1 of
             (Inl error, tr2) \<Rightarrow> (catch_timeout qid error, tr2)
           | (Inr queryExecution, tr2) \<Rightarrow>
               (case getQueryResults w qid (maxRows input) tr2 of
                  (Inl error, tr3) \<Rightarrow> (catch_timeout qid error, tr3)
                | (Inr result, tr3) \<Rightarrow> (Inr (Full result), tr3))) = ?tr1 @ added"
          by blast
        with Inr Some False show ?thesis
          by (simp add: executeQuery_def Let_def)
      qed
    qed
  qed
qed

lemma scripted_start:
  "send_StartQueryExecutionCommand (scripted script page) h q d loc
     = Inr \<lparr>QueryExecutionId = Some ''q-1''\<rparr>"
  by (simp add: scripted_def)

text \<open>
  Claim C2 does not hold of the code: the handler takes any number as \<open>maxRows\<close>,
  though the tool's schema declares the range 1 to 10000. With \<open>maxRows = 10001\<close>,
  \<open>run_query\<close> submits the query, polls, asks for the status and requests a page of
  10001 rows; \<open>get_result\<close> asks for the status and requests a page of 10001 rows.
  Both calls succeed when the backend serves the page.
\<close>

theorem maxRows_10001_reaches_backend:
  "\<not> (maxRows_minimum \<le> 10001 \<and> 10001 \<le> maxRows_maximum)
   \<and> call_tool (scripted succeeded_at_once (Some example_page)) service
      \<lparr>name = ''run_query'', arguments = Some oversized_run_args\<rparr> []
    = (Inr (Content (RunResult (Full
         \<lparr>columns = [''col_a'', ''col_b''],
          rows = [[''col_a'' \<mapsto> Some ''1'', ''col_b'' \<mapsto> Some ''x''],
                  [''col_a'' \<mapsto> Some ''2'', ''col_b'' \<mapsto> None]],
          result_queryExecutionId = ''q-1'', bytesScanned = 2048, executionTime = 35\<rparr>))),
       [StartQueryExecution ''SELECT 1'' ''db'' ''s3://bucket/out/'',
        GetQueryExecution ''q-1'', GetQueryExecution ''q-1'', GetQueryResults ''q-1'' 10001])
   \<and> call_tool (scripted succeeded_at_once (Some example_page)) service
      \<lparr>name = ''get_result'', arguments = Some oversized_result_args\<rparr> []
    = (Inr (Content (ResultOf
         \<lparr>columns = [''col_a'', ''col_b''],
          rows = [[''col_a'' \<mapsto> Some ''1'', ''col_b'' \<mapsto> Some ''x''],
                  [''col_a'' \<mapsto> Some ''2'', ''col_b'' \<mapsto> None]],
          result_queryExecutionId = ''q-1'', bytesScanned = 2048, executionTime = 35\<rparr>)),
       [GetQueryExecution ''q-1'', GetQueryResults ''q-1'' 10001])"
proof -
  have fetch: "getQueryResults (scripted succeeded_at_once (Some example_page)) ''q-1'' (Some 10001) tr
     = (Inr \<lparr>columns = [''col_a'', ''col_b''],
          rows = [[''col_a'' \<mapsto> Some ''1'', ''col_b'' \<mapsto> Some ''x''],
                  [''col_a'' \<mapsto> Some ''2'', ''col_b'' \<mapsto> None]],
          result_queryExecutionId = ''q-1'', bytesScanned = 2048, executionTime = 35\<rparr>,
        tr @ [GetQueryExecution ''q-1'', GetQueryResults ''q-1'' 10001])" for tr
    by (simp add: getQueryResults_def scripted_status succeeded_at_once_def observed_def
          QueryExecutionState_defs, simp add: scripted_def decode_defs)
  have poll: "waitForQueryCompletion (scripted succeeded_at_once (Some example_page)) ''q-1''
                (Some 100) (Some 60000) [StartQueryExecution ''SELECT 1'' ''db'' ''s3://bucket/out/'']
      = (Inr (status_reply (Some SUCCEEDED, None)),
         [StartQueryExecution ''SELECT 1'' ''db'' ''s3://bucket/out/'', GetQueryExecution ''q-1''])"
    by (simp add: waitForQueryCompletion_def waitForQueryCompletion_loop.simps run_defs)
  have run: "call_tool (scripted succeeded_at_once (Some example_page)) service
      \<lparr>name = ''run_query'', arguments = Some oversized_run_args\<rparr> []
    = (Inr (Content (RunResult (Full
         \<lparr>columns = [''col_a'', ''col_b''],
          rows = [[''col_a'' \<mapsto> Some ''1'', ''col_b'' \<mapsto> Some ''x''],
                  [''col_a'' \<mapsto> Some ''2'', ''col_b'' \<mapsto> None]],
          result_queryExecutionId = ''q-1'', bytesScanned = 2048, executionTime = 35\<rparr>))),
       [StartQueryExecution ''SELECT 1'' ''db'' ''s3://bucket/out/'',
        GetQueryExecution ''q-1'', GetQueryExecution ''q-1'', GetQueryResults ''q-1'' 10001])"
    by (simp add: call_tool_def run_query_def executeQuery_def oversized_run_args_def arg_def
          service_def scripted_start poll fetch)
  have get: "call_tool (scripted succeeded_at_once (Some example_page)) service
      \<lparr>name = ''get_result'', arguments = Some oversized_result_args\<rparr> []
    = (Inr (Content (ResultOf
         \<lparr>columns = [''col_a'', ''col_b''],
          rows = [[''col_a'' \<mapsto> Some ''1'', ''col_b'' \<mapsto> Some ''x''],
                  [''col_a'' \<mapsto> Some ''2'', ''col_b'' \<mapsto> None]],
          result_queryExecutionId = ''q-1'', bytesScanned = 2048, executionTime = 35\<rparr>)),
       [GetQueryExecution ''q-1'', GetQueryResults ''q-1'' 10001])"
    by (simp add: call_tool_def get_result_def valid_queryExecutionId_def
          oversized_result_args_def arg_def fetch)
  have range: "\<not> (maxRows_minimum \<le> 10001 \<and> 10001 \<le> maxRows_maximum)"
    by (simp add: maxRows_minimum_def maxRows_maximum_def)
  from range run get show ?thesis by blast
qed

text \<open>
  Claim C8, as stated, fails for the empty string: a \<open>run_query\<close> call whose database
  and query are empty strings is submitted to the backend.
\<close>

theorem empty_strings_are_submitted:
  "call_tool rejecting_submission service
      \<lparr>name = ''run_query'', arguments = Some empty_string_args\<rparr> []
    = (Inr (ErrorContent (Thrown \<lparr>message = ''Query string is empty'', code = ''INVALID_REQUEST'',
                                   queryExecutionId = None\<rparr>)),
       [StartQueryExecution [] [] ''s3://bucket/out/''])"
  by (simp add: call_tool_def run_query_def executeQuery_def empty_string_args_def arg_def
        service_def rejecting_submission_def handler_catch_def)

text \<open>
  Claim C8, amended. A \<open>run_query\<close> call without arguments, or whose database or query
  is absent or not a string, is answered with the invalid-parameters error and nothing is
  sent to the backend. A call whose database and query are strings, empty or not, is
  submitted: the submission is the first thing it sends.
\<close>

theorem run_query_requires_strings:
  "(arguments_opt = None
      \<or> (\<exists>args. arguments_opt = Some args
            \<and> (as_string (arg args ''database'') = None \<or> as_string (arg args ''query'') = None))
     \<longrightarrow> call_tool w this \<lparr>name = ''run_query'', arguments = arguments_opt\<rparr> tr
           = (Inr (ErrorContent run_query_invalid_params), tr))
   \<and> (arguments_opt = Some args \<and> as_string (arg args ''database'') = Some d
        \<and> as_string (arg args ''query'') = Some q
     \<longrightarrow> (\<exists>added. snd (call_tool w this \<lparr>name = ''run_query'', arguments = arguments_opt\<rparr> tr)
           = tr @ StartQueryExecution q d (outputLocation this) # added))"
proof -
  have reject: "handler_catch run_query_invalid_params = Inr (ErrorContent run_query_invalid_params)"
    by (simp add: handler_catch_def run_query_invalid_params_def)
  have a: "arguments_opt = None
      \<or> (\<exists>args. arguments_opt = Some args
            \<and> (as_string (arg args ''database'') = None \<or> as_string (arg args ''query'') = None))
     \<longrightarrow> call_tool w this \<lparr>name = ''run_query'', arguments = arguments_opt\<rparr> tr
           = (Inr (ErrorContent run_query_invalid_params), tr)"
    by (auto simp: call_tool_def run_query_def reject split: option.splits)
  have b: "\<exists>added. snd (call_tool w this \<lparr>name = ''run_query'', arguments = arguments_opt\<rparr> tr)
           = tr @ StartQueryExecution q d (outputLocation this) # added"
    if "arguments_opt = Some args" "as_string (arg args ''database'') = Some d"
       "as_string (arg args ''query'') = Some q"
  proof -
    let ?input = "\<lparr>database = d, query = q, maxRows = as_number (arg args ''maxRows''),
                   timeoutMs = as_number (arg args ''timeoutMs'')\<rparr>"
    from executeQuery_submits [of w this ?input tr]
    obtain added where
      e: "snd (executeQuery w this ?input tr) = tr @ StartQueryExecution q d (outputLocation this) # added"
      by auto
    obtain res tr' where r: "executeQuery w this ?input tr = (res, tr')"
      by (cases "executeQuery w this ?input tr")
    with e that have "snd (call_tool w this \<lparr>name = ''run_query'', arguments = arguments_opt\<rparr> tr) 
           = tr @ StartQueryExecution q d (outputLocation this) # added"
      by (cases res) (simp_all add: call_tool_def run_query_def)
    then show ?thesis by blast
  qed
  from a b show ?thesis by blast
qed

theorem run_query_requires_strings_witness:
  "call_tool rejecting_submission service \<lparr>name = ''run_query'', arguments = None\<rparr> []
     = (Inr (ErrorContent run_query_invalid_params), [])
   \<and> call_tool rejecting_submission service
        \<lparr>name = ''run_query'', arguments = Some no_query_args\<rparr> []
     = (Inr (ErrorContent run_query_invalid_params), [])
   \<and> (\<exists>added. snd (call_tool rejecting_submission service
                      \<lparr>name = ''run_query'', arguments = Some empty_string_args\<rparr> [])
         = [] @ StartQueryExecution [] [] (outputLocation service) # added)"
proof -
  have n: "as_string (arg no_query_args ''query'') = None"
    by (simp add: no_query_args_def arg_def)
  have e: "as_string (arg empty_string_args ''database'') = Some []"
    "as_string (arg empty_string_args ''query'') = Some []"
    by (simp_all add: empty_string_args_def arg_def)
  have 1: "call_tool rejecting_submission service \<lparr>name = ''run_query'', arguments = None\<rparr> []
     = (Inr (ErrorContent run_query_invalid_params), [])"
    using run_query_requires_strings [where arguments_opt = None and w = rejecting_submission
        and this = service and tr = "[]"]
    by simp
  have 2: "call_tool rejecting_submission service
        \<lparr>name = ''run_query'', arguments = Some no_query_args\<rparr> []
     = (Inr (ErrorContent run_query_invalid_params), [])"
    using n run_query_requires_strings [where arguments_opt = "Some no_query_args"
        and w = rejecting_submission and this = service and tr = "[]"]
    by simp
  have 3: "\<exists>added. snd (call_tool rejecting_submission service
                      \<lparr>name = ''run_query'', arguments = Some empty_string_args\<rparr> [])
         = [] @ StartQueryExecution [] [] (outputLocation service) # added"
    using e run_query_requires_strings [where arguments_opt = "Some empty_string_args"
        and args = empty_string_args and d = "[]" and q = "[]"
        and w = rejecting_submission and this = service and tr = "[]"]
    by simp
  from 1 2 3 show ?thesis by blast
qed

end
